theory Spec2Isabelle
  imports Complex_Main "HOL-Library.Word"
begin

section \<open>JavaScript strings\<close>

text \<open>
  A JavaScript string is a sequence of UTF-16 code units. Values typed by the user are
  modelled as lists of 16-bit words; DOM keywords (class names, ids, attribute values,
  the fixed messages) are plain HOL strings, and \<open>lit\<close> turns such a literal into
  code units where the source concatenates it with user text.
\<close>

type_synonym code_unit = "16 word"
type_synonym jsstring = "code_unit list"

definition lit :: "string \<Rightarrow> jsstring" where
  "lit s = map (\<lambda>c. of_nat (of_char c)) s"

text \<open>
  The code units that \<open>String.prototype.trim\<close> strips and that \<open>\s\<close> matches in a
  regular expression without the \<open>u\<close> flag: WhiteSpace (TAB, VT, FF, SP, NBSP, ZWNBSP
  and the Unicode space separators) together with LineTerminator (LF, CR, LS, PS).
\<close>

definition is_space :: "code_unit \<Rightarrow> bool" where
  "is_space u =
     (u \<in> set [0x9, 0xA, 0xB, 0xC, 0xD, 0x20, 0xA0, 0x1680, 0x2028, 0x2029,
                0x202F, 0x205F, 0x3000, 0xFEFF]
      \<or> (0x2000 \<le> u \<and> u \<le> 0x200A))"

definition trim :: "jsstring \<Rightarrow> jsstring" where
  "trim s = rev (dropWhile is_space (rev (dropWhile is_space s)))"

section \<open>The email pattern\<close>

text \<open>
  The regular expression of \<open>validateField\<close> is
  \<^verbatim>\<open>/^[^\s@]+@[^\s@]+\.[^\s@]+$/\<close>:
  anchored at both ends, a sequence of items, each a single atom or an atom under \<open>+\<close>.
  An atom is a literal code unit or the negated class \<^verbatim>\<open>[^\s@]\<close>. \<open>regex_test\<close> is the
  backtracking matcher: under \<open>+\<close> it first tries to take one more code unit and then
  falls back to the rest of the pattern.
\<close>

datatype atom = Chr code_unit | NotSpaceAt

datatype item = Once atom | Plus atom

fun atom_ok :: "atom \<Rightarrow> code_unit \<Rightarrow> bool" where
  "atom_ok (Chr c) u = (u = c)"
| "atom_ok NotSpaceAt u = (\<not> is_space u \<and> u \<noteq> 0x40)"

fun regex_test :: "item list \<Rightarrow> jsstring \<Rightarrow> bool" where
  "regex_test [] s = (s = [])"
| "regex_test (Once a # r) [] = False"
| "regex_test (Once a # r) (u # s) = (atom_ok a u \<and> regex_test r s)"
| "regex_test (Plus a # r) [] = False"
| "regex_test (Plus a # r) (u # s) =
     (atom_ok a u \<and> (regex_test (Plus a # r) s \<or> regex_test r s))"

definition emailRegex :: "item list" where
  "emailRegex = [Plus NotSpaceAt, Once (Chr 0x40), Plus NotSpaceAt, Once (Chr 0x2E),
                 Plus NotSpaceAt]"

text \<open>
  The pattern as the specification words it: a non-empty local part, an at sign, a
  non-empty domain part, a dot and a non-empty last part, none of the three parts
  holding a whitespace code unit or an at sign.
\<close>

definition spec_email_pattern :: "jsstring \<Rightarrow> bool" where
  "spec_email_pattern v =
     (\<exists>a b c. v = a @ [0x40] @ b @ [0x2E] @ c \<and> a \<noteq> [] \<and> b \<noteq> [] \<and> c \<noteq> [] \<and>
        list_all (\<lambda>u. \<not> is_space u \<and> u \<noteq> 0x40) (a @ b @ c))"

section \<open>Form fields\<close>

text \<open>
  A form control (an \<open>input\<close> or a \<open>textarea\<close>) with the attributes the code reads:
  its id, its name (if any), its \<open>type\<close>, the \<open>required\<close> attribute, the current and
  the default value, its class list, and the element that follows it (the feedback
  label), if there is one. A class list is a DOMTokenList: an ordered set of tokens.
\<close>

record feedback_el =
  fb_classes :: "string list"
  textContent :: string

record field =
  fid :: string
  fname :: "string option"
  ftype :: string
  required :: bool
  fvalue :: jsstring
  defaultValue :: jsstring
  classList :: "string list"
  nextElementSibling :: "feedback_el option"

definition classList_remove :: "string \<Rightarrow> string list \<Rightarrow> string list" where
  "classList_remove c cs = filter (\<lambda>x. x \<noteq> c) cs"

definition classList_add :: "string \<Rightarrow> string list \<Rightarrow> string list" where
  "classList_add c cs = (if c \<in> set cs then cs else cs @ [c])"

text \<open>
  Lines 294 to 307 of \<open>validateField\<close>: the locals \<open>isValid\<close> and \<open>message\<close> after
  the two checks on the trimmed value.
\<close>

definition field_verdict :: "field \<Rightarrow> bool \<times> string" where
  "field_verdict f =
     (let v = trim (fvalue f) in
      if required f \<and> v = [] then (False, ''This field is required.'')
      else if ftype f = ''email'' \<and> v \<noteq> [] then
        (if \<not> regex_test emailRegex v then (False, ''Please enter a valid email address.'')
         else (True, ''''))
      else (True, ''''))"

text \<open>
  The whole of \<open>validateField\<close>: the verdict, then the presentation classes of the
  field and, for an invalid field whose next sibling carries \<open>invalid-feedback\<close>, the
  message written into that sibling. The function returns \<open>isValid\<close>; the model
  returns it with the field as the call leaves it.
\<close>

definition set_feedback :: "string \<Rightarrow> feedback_el option \<Rightarrow> feedback_el option" where
  "set_feedback message fb =
     (case fb of
        None \<Rightarrow> None
      | Some e \<Rightarrow>
          if ''invalid-feedback'' \<in> set (fb_classes e) then Some (e\<lparr>textContent := message\<rparr>)
          else Some e)"

definition validateField :: "field \<Rightarrow> bool \<times> field" where
  "validateField f =
     (case field_verdict f of
        (isValid, message) \<Rightarrow>
          if isValid then
            (True, f\<lparr>classList := classList_add ''is-valid''
                                   (classList_remove ''is-invalid'' (classList f))\<rparr>)
          else
            (False, f\<lparr>classList := classList_add ''is-invalid''
                                    (classList_remove ''is-valid'' (classList f)),
                       nextElementSibling := set_feedback message (nextElementSibling f)\<rparr>))"

text \<open>
  \<open>validateForm\<close>: the fields selected by \<^verbatim>\<open>input[required], textarea[required]\<close> are
  the required controls of the form, in document order; \<open>forEach\<close> validates each of
  them and lowers \<open>isValid\<close> when one fails. The form is the list of its controls, and
  the result carries the controls as the pass leaves them.
\<close>

fun validateForm_loop :: "bool \<Rightarrow> field list \<Rightarrow> bool \<times> field list" where
  "validateForm_loop isValid [] = (isValid, [])"
| "validateForm_loop isValid (f # fs) =
     (if required f then
        (case validateField f of
           (ok, f') \<Rightarrow>
             (case validateForm_loop (if \<not> ok then False else isValid) fs of
                (r, fs') \<Rightarrow> (r, f' # fs')))
      else
        (case validateForm_loop isValid fs of (r, fs') \<Rightarrow> (r, f # fs')))"

definition validateForm :: "field list \<Rightarrow> bool \<times> field list" where
  "validateForm form = validateForm_loop True form"

text \<open>Sample fields used to exercise the validator.\<close>

definition ex_blank_required :: field where
  "ex_blank_required = \<lparr>fid = ''contactName'', fname = Some ''contactName'', ftype = ''text'',
     required = True, fvalue = lit ''  '', defaultValue = [], classList = [''form-control''],
     nextElementSibling = Some \<lparr>fb_classes = [''invalid-feedback''], textContent = ''''\<rparr>\<rparr>"

definition ex_bad_email :: field where
  "ex_bad_email = \<lparr>fid = ''contactEmail'', fname = Some ''contactEmail'', ftype = ''email'',
     required = True, fvalue = lit ''not-an-email'', defaultValue = [],
     classList = [''form-control'', ''is-valid''],
     nextElementSibling = Some \<lparr>fb_classes = [''invalid-feedback''], textContent = ''''\<rparr>\<rparr>"

definition ex_nbsp_email :: field where
  "ex_nbsp_email = \<lparr>fid = ''contactEmail'', fname = Some ''contactEmail'', ftype = ''email'',
     required = False, fvalue = [0xA0] @ lit ''a@b.co'' @ [0xA0], defaultValue = [],
     classList = [''form-control''],
     nextElementSibling = Some \<lparr>fb_classes = [''invalid-feedback''], textContent = ''''\<rparr>\<rparr>"

definition ex_nbsp_required_email :: field where
  "ex_nbsp_required_email = \<lparr>fid = ''contactEmail'', fname = Some ''contactEmail'',
     ftype = ''email'', required = True, fvalue = [0xA0], defaultValue = [],
     classList = [''form-control''],
     nextElementSibling = Some \<lparr>fb_classes = [''invalid-feedback''], textContent = ''''\<rparr>\<rparr>"

definition ex_blank_optional_email :: field where
  "ex_blank_optional_email = \<lparr>fid = ''cc'', fname = Some ''cc'', ftype = ''email'',
     required = False, fvalue = lit ''   '', defaultValue = [],
     classList = [''form-control''], nextElementSibling = None\<rparr>"

definition ex_form :: "field list" where
  "ex_form = [ex_blank_required, ex_blank_optional_email, ex_bad_email]"

section \<open>Theme store\<close>

text \<open>
  The state the theme functions touch: the app's \<open>currentTheme\<close>, the \<open>data-theme\<close>
  attribute of the document element, local storage (a map from keys to stored
  strings), the class name of every theme icon, the body's \<open>transition\<close> style and the
  delays of the pending timers that clear it. Stored values are arbitrary strings;
  reading and writing local storage succeed.
\<close>

record theme_state =
  currentTheme :: jsstring
  dataTheme :: "jsstring option"
  localStorage :: "string \<rightharpoonup> jsstring"
  themeIcons :: "string list"
  bodyTransition :: string
  transitionTimers :: "nat list"

definition setTheme :: "jsstring \<Rightarrow> theme_state \<Rightarrow> theme_state" where
  "setTheme theme st =
     st\<lparr>currentTheme := theme,
        dataTheme := Some theme,
        localStorage := (localStorage st)(''portfolio-theme'' \<mapsto> theme),
        themeIcons := map (\<lambda>_. if theme = lit ''dark'' then ''bi bi-sun''
                                 else ''bi bi-moon-stars'') (themeIcons st)\<rparr>"

definition toggleTheme :: "theme_state \<Rightarrow> theme_state" where
  "toggleTheme st =
     (let newTheme = (if currentTheme st = lit ''dark'' then lit ''light'' else lit ''dark'');
          st1 = setTheme newTheme st
      in st1\<lparr>bodyTransition := ''all 0.3s ease'',
              transitionTimers := transitionTimers st1 @ [300]\<rparr>)"

text \<open>
  \<open>setupTheme\<close> reads \<^verbatim>\<open>localStorage.getItem('portfolio-theme') || 'dark'\<close>: the default
  stands in for a missing key (\<open>null\<close>) and for the empty string, the two falsy results.
\<close>

definition setupTheme :: "theme_state \<Rightarrow> theme_state" where
  "setupTheme st =
     (let savedTheme = (case localStorage st ''portfolio-theme'' of
                          None \<Rightarrow> lit ''dark''
                        | Some v \<Rightarrow> if v = [] then lit ''dark'' else v)
      in setTheme savedTheme st)"

text \<open>The state the constructor leaves, over a given content of local storage.\<close>

definition new_theme_state :: "(string \<rightharpoonup> jsstring) \<Rightarrow> theme_state" where
  "new_theme_state store =
     \<lparr>currentTheme = lit ''dark'', dataTheme = None, localStorage = store,
      themeIcons = [''bi bi-moon-stars'', ''bi bi-moon-stars''], bodyTransition = '''',
      transitionTimers = []\<rparr>"

definition ex_store_blue :: "string \<rightharpoonup> jsstring" where
  "ex_store_blue = [''portfolio-theme'' \<mapsto> lit ''blue'']"

definition ex_store_light :: "string \<rightharpoonup> jsstring" where
  "ex_store_light = [''portfolio-theme'' \<mapsto> lit ''light'']"

section \<open>Scroll coordinator\<close>

text \<open>
  \<open>setupScrollEffects\<close>: the closure variable \<open>ticking\<close>, the number of callbacks it has
  queued for the next display frame, and two counters: how many times
  \<open>requestAnimationFrame\<close> was called and how many times \<open>handleScrollEffects\<close> ran.
\<close>

record scroll_state =
  ticking :: bool
  queued :: nat
  requested :: nat
  updates :: nat

datatype scroll_event = Scroll | Frame

definition scroll_init :: scroll_state where
  "scroll_init = \<lparr>ticking = False, queued = 0, requested = 0, updates = 0\<rparr>"

definition on_scroll :: "scroll_state \<Rightarrow> scroll_state" where
  "on_scroll st =
     (if \<not> ticking st then
        st\<lparr>queued := queued st + 1, requested := requested st + 1, ticking := True\<rparr>
      else st)"

text \<open>The queued callback: \<open>handleScrollEffects\<close>, then \<open>ticking = false\<close>.\<close>

definition scroll_callback :: "scroll_state \<Rightarrow> scroll_state" where
  "scroll_callback st = st\<lparr>updates := updates st + 1, ticking := False\<rparr>"

text \<open>A display frame runs every callback queued before it.\<close>

definition on_frame :: "scroll_state \<Rightarrow> scroll_state" where
  "on_frame st = (scroll_callback ^^ queued st) (st\<lparr>queued := 0\<rparr>)"

fun scroll_step :: "scroll_state \<Rightarrow> scroll_event \<Rightarrow> scroll_state" where
  "scroll_step st Scroll = on_scroll st"
| "scroll_step st Frame = on_frame st"

definition scroll_run :: "scroll_event list \<Rightarrow> scroll_state \<Rightarrow> scroll_state" where
  "scroll_run evs st = foldl scroll_step st evs"

definition scroll_inv :: "scroll_state \<Rightarrow> bool" where
  "scroll_inv st = (queued st = (if ticking st then 1 else 0))"

section \<open>Active navigation item\<close>

text \<open>
  \<open>updateActiveNavItem\<close> reads the sections that have an id (their id, \<open>offsetTop\<close> and
  \<open>offsetHeight\<close>) and the scroll position, and writes class lists of elements of the
  document. An element is modelled by its tag, its \<open>href\<close> attribute and its class list.
  Positions are JavaScript numbers, modelled as reals.
\<close>

record section_el =
  sec_id :: string
  offsetTop :: real
  offsetHeight :: real

record page_el =
  el_tag :: string
  el_href :: "string option"
  el_classes :: "string list"

text \<open>\<^verbatim>\<open>document.querySelectorAll('.nav-link').forEach(link => link.classList.remove('active'))\<close>\<close>

definition clear_nav_links :: "page_el list \<Rightarrow> page_el list" where
  "clear_nav_links els =
     map (\<lambda>e. if ''nav-link'' \<in> set (el_classes e)
               then e\<lparr>el_classes := classList_remove ''active'' (el_classes e)\<rparr> else e) els"

text \<open>
  \<^verbatim>\<open>document.querySelector(`a[href="#${sectionId}"]`)?.classList.add('active')\<close>: the first
  anchor of the document with that \<open>href\<close>, if there is one.
\<close>

fun activate_link :: "string \<Rightarrow> page_el list \<Rightarrow> page_el list" where
  "activate_link sid [] = []"
| "activate_link sid (e # es) =
     (if el_tag e = ''a'' \<and> el_href e = Some (''#'' @ sid)
      then e\<lparr>el_classes := classList_add ''active'' (el_classes e)\<rparr> # es
      else e # activate_link sid es)"

definition nav_section_step :: "real \<Rightarrow> page_el list \<Rightarrow> section_el \<Rightarrow> page_el list" where
  "nav_section_step scrollPos els s =
     (let sectionTop = offsetTop s; sectionHeight = offsetHeight s; sectionId = sec_id s in
      if scrollPos \<ge> sectionTop \<and> scrollPos < sectionTop + sectionHeight
      then activate_link sectionId (clear_nav_links els)
      else els)"

definition updateActiveNavItem :: "real \<Rightarrow> section_el list \<Rightarrow> page_el list \<Rightarrow> page_el list" where
  "updateActiveNavItem scrollY sections els =
     (let scrollPos = scrollY + 100 in foldl (nav_section_step scrollPos) els sections)"

definition ex_sections :: "section_el list" where
  "ex_sections = [\<lparr>sec_id = ''home'', offsetTop = 0, offsetHeight = 600\<rparr>,
                  \<lparr>sec_id = ''about'', offsetTop = 700, offsetHeight = 500\<rparr>]"

definition ex_links :: "page_el list" where
  "ex_links = [\<lparr>el_tag = ''a'', el_href = Some ''#home'', el_classes = [''nav-link'', ''active'']\<rparr>,
               \<lparr>el_tag = ''a'', el_href = Some ''#about'', el_classes = [''nav-link'']\<rparr>]"

section \<open>Projects gallery\<close>

datatype js_error = TypeError | URIError

text \<open>
  A project as the card template reads it: the strings that \<open>project.title\<close>,
  \<open>project.image\<close>, \<open>project.description\<close> and \<open>project.live\<close> give when the template
  literal interpolates them. An element of the fetched array is such a value or
  \<open>null\<close>, on which reading a property throws a TypeError. The parsed document is an
  array, or a value without \<open>forEach\<close>.
\<close>

record project =
  title :: jsstring
  image :: jsstring
  description :: jsstring
  live :: jsstring

datatype json_elem = JNull | JObj project

datatype json_value = NotArray | Arr "json_elem list"

text \<open>
  What \<open>fetch\<close> and \<open>response.json()\<close> can do: the fetch rejects, the body does not
  parse, or a value comes back. (A response with an error status resolves like any
  other, and its body is parsed.)
\<close>

datatype fetch_outcome = FetchRejected | JsonRejected | Parsed json_value

text \<open>
  The string that \<open>createProjectCard\<close> assigns to \<open>innerHTML\<close>: the template literal of
  lines 188 to 208, with the four strings of the project spliced in as they are.
\<close>

definition card_markup :: "project \<Rightarrow> jsstring" where
  \<open>card_markup p =
     lit ''\<newline>'' @
     lit ''            <div class="project-card glass-card p-0">\<newline>'' @
     lit ''                <div class="project-image-wrapper">\<newline>'' @
     lit ''                    <img src="'' @
     image p @
     lit ''" alt="'' @
     title p @
     lit ''" class="project-image" loading="lazy">\<newline>'' @
     lit ''                    <div class="project-overlay">\<newline>'' @
     lit ''                        <a href="'' @
     live p @
     lit ''" target="_blank" rel="noopener noreferrer" class="project-link" aria-label="View '' @
     title p @
     lit '' live demo">\<newline>'' @
     lit ''                            <i class="bi bi-box-arrow-up-right"></i>\<newline>'' @
     lit ''                        </a>\<newline>'' @
     lit ''                    </div>\<newline>'' @
     lit ''                </div>\<newline>'' @
     lit ''                <div class="p-4">\<newline>'' @
     lit ''                    <h4 class="project-title">'' @
     title p @
     lit ''</h4>\<newline>'' @
     lit ''                    <p class="project-description">'' @
     description p @
     lit ''</p>\<newline>'' @
     lit ''                    <div class="project-buttons d-flex gap-2">\<newline>'' @
     lit ''                        <a href="'' @
     live p @
     lit ''" target="_blank" rel="noopener noreferrer" class="btn btn-gradient btn-sm">\<newline>'' @
     lit ''                            <i class="bi bi-box-arrow-up-right me-1"></i>Live Demo\<newline>'' @
     lit ''                        </a>\<newline>'' @
     lit ''                    </div>\<newline>'' @
     lit ''                </div>\<newline>'' @
     lit ''            </div>\<newline>'' @
     lit ''        ''\<close>

text \<open>
  A card: the class of the column, the string assigned to its \<open>innerHTML\<close>, and the
  index whose tenth is the animation delay in seconds. Beside the markup the card
  records the strings that the template splices in at the image source, the image's
  alternative text, the two links, the label of the overlay link, the heading and the
  paragraph. The markup is not escaped: these strings are the attributes and texts of
  the elements the browser builds only as long as they hold no markup character.
\<close>

record card =
  card_class :: string
  innerHTML :: jsstring
  img_src :: jsstring
  img_alt :: jsstring
  overlay_href :: jsstring
  overlay_aria_label :: jsstring
  title_text :: jsstring
  description_text :: jsstring
  button_href :: jsstring
  delay_index :: nat

definition card_of :: "project \<Rightarrow> nat \<Rightarrow> card" where
  "card_of p i =
     \<lparr>card_class = ''col-lg-4 col-md-6 mb-4'',
      innerHTML = card_markup p,
      img_src = image p, img_alt = title p,
      overlay_href = live p,
      overlay_aria_label = lit ''View '' @ title p @ lit '' live demo'',
      title_text = title p, description_text = description p,
      button_href = live p, delay_index = i\<rparr>"

definition createProjectCard :: "json_elem \<Rightarrow> nat \<Rightarrow> js_error + card" where
  "createProjectCard e i = (case e of JNull \<Rightarrow> Inl TypeError | JObj p \<Rightarrow> Inr (card_of p i))"

record gallery =
  projects :: json_value
  container :: "card list"
  logged_errors :: nat

text \<open>
  \<open>renderProjects\<close> empties the container and appends one card per element; an
  exception leaves the cards appended so far. The result is the exception, if any,
  with the state it leaves. The element \<open>projects-container\<close> is part of the page.
\<close>

fun append_cards :: "json_elem list \<Rightarrow> nat \<Rightarrow> card list \<Rightarrow> js_error option \<times> card list" where
  "append_cards [] i cs = (None, cs)"
| "append_cards (e # es) i cs =
     (case createProjectCard e i of
        Inl err \<Rightarrow> (Some err, cs)
      | Inr c \<Rightarrow> append_cards es (Suc i) (cs @ [c]))"

definition renderProjects :: "gallery \<Rightarrow> js_error option \<times> gallery" where
  "renderProjects g =
     (case projects g of
        NotArray \<Rightarrow> (Some TypeError, g\<lparr>container := []\<rparr>)
      | Arr es \<Rightarrow>
          (case append_cards es 0 [] of (err, cs) \<Rightarrow> (err, g\<lparr>container := cs\<rparr>)))"

definition fallbackProjects :: "project list" where
  "fallbackProjects =
     [\<lparr>title = lit ''JAVA IN MY STYLE'', image = lit ''./java.png'',
       description = lit ''Deep learning model for image classification using TensorFlow and CNN architecture.'',
       live = lit ''https://techinmystyle.com/java%20in%20my%20style/''\<rparr>,
      \<lparr>title = lit ''JAVASCRIPT INTERMEDIATE IN MY STYLE'', image = lit ''./JAVASCRIPT.png'',
       description = lit ''Interactive dashboard for data visualization and analytics using Python and Streamlit.'',
       live = lit ''https://techinmystyle.com/javascript%20in%20my%20style%20-%20intermediate/''\<rparr>,
      \<lparr>title = lit ''ML IN MY STYLE'', image = lit ''./ml.png'',
       description = lit ''Real-time object detection and recognition using OpenCV and YOLO algorithm.'',
       live = lit ''https://techinmystyle.com/ml%20in%20my%20style/''\<rparr>,
      \<lparr>title = lit ''AI IN MY STYLE'', image = lit ''./ai.png'',
       description = lit ''Real-time object detection and recognition using OpenCV and YOLO algorithm.'',
       live = lit ''https://techinmystyle.com/ai%20in%20my%20style/''\<rparr>]"

definition renderFallbackProjects :: "gallery \<Rightarrow> js_error option \<times> gallery" where
  "renderFallbackProjects g = renderProjects (g\<lparr>projects := Arr (map JObj fallbackProjects)\<rparr>)"

text \<open>
  \<open>loadProjects\<close>: everything thrown inside the \<open>try\<close> block (by the fetch, by the
  parse, or by \<open>renderProjects\<close> on the value that came back) is logged and leads to
  \<open>renderFallbackProjects\<close>.
\<close>

definition log_error :: "gallery \<Rightarrow> gallery" where
  "log_error g = g\<lparr>logged_errors := logged_errors g + 1\<rparr>"

definition loadProjects :: "fetch_outcome \<Rightarrow> gallery \<Rightarrow> js_error option \<times> gallery" where
  "loadProjects outcome g =
     (case outcome of
        FetchRejected \<Rightarrow> renderFallbackProjects (log_error g)
      | JsonRejected \<Rightarrow> renderFallbackProjects (log_error g)
      | Parsed v \<Rightarrow>
          (case renderProjects (g\<lparr>projects := v\<rparr>) of
             (None, g') \<Rightarrow> (None, g')
           | (Some err, g') \<Rightarrow> renderFallbackProjects (log_error g')))"

text \<open>The four cards of the fallback list, in the order of the list.\<close>

definition fallback_cards :: "card list" where
  "fallback_cards = map (\<lambda>(p, i). card_of p i) (zip fallbackProjects [0..<4])"

definition ex_gallery :: gallery where
  "ex_gallery = \<lparr>projects = Arr [], container = [], logged_errors = 0\<rparr>"

definition ex_project :: project where
  "ex_project = \<lparr>title = lit ''T'', image = lit ''t.png'', description = lit ''D'',
                  live = lit ''https://t/''\<rparr>"

section \<open>Contact form submission\<close>

text \<open>
  \<open>encodeURIComponent\<close> as ECMAScript defines it: the unreserved code units stand for
  themselves; any other code point is written as the percent-escaped octets of its
  UTF-8 encoding; a surrogate without its partner throws a URIError.
\<close>

definition uriUnescaped :: "code_unit \<Rightarrow> bool" where
  "uriUnescaped u =
     ((0x41 \<le> u \<and> u \<le> 0x5A) \<or> (0x61 \<le> u \<and> u \<le> 0x7A) \<or> (0x30 \<le> u \<and> u \<le> 0x39)
      \<or> u \<in> set [0x2D, 0x5F, 0x2E, 0x21, 0x7E, 0x2A, 0x27, 0x28, 0x29])"

definition hex_digit :: "nat \<Rightarrow> code_unit" where
  "hex_digit d = (if d < 10 then of_nat (0x30 + d) else of_nat (0x41 + (d - 10)))"

definition percent_octet :: "nat \<Rightarrow> jsstring" where
  "percent_octet b = [0x25, hex_digit (b div 16), hex_digit (b mod 16)]"

definition utf8_octets :: "nat \<Rightarrow> nat list" where
  "utf8_octets cp =
     (if cp < 0x80 then [cp]
      else if cp < 0x800 then [0xC0 + cp div 0x40, 0x80 + cp mod 0x40]
      else if cp < 0x10000 then
        [0xE0 + cp div 0x1000, 0x80 + (cp div 0x40) mod 0x40, 0x80 + cp mod 0x40]
      else
        [0xF0 + cp div 0x40000, 0x80 + (cp div 0x1000) mod 0x40,
         0x80 + (cp div 0x40) mod 0x40, 0x80 + cp mod 0x40])"

definition escape_code_point :: "nat \<Rightarrow> jsstring" where
  "escape_code_point cp = concat (map percent_octet (utf8_octets cp))"

definition is_lead_surrogate :: "code_unit \<Rightarrow> bool" where
  "is_lead_surrogate u = (0xD800 \<le> u \<and> u \<le> 0xDBFF)"

definition is_trail_surrogate :: "code_unit \<Rightarrow> bool" where
  "is_trail_surrogate u = (0xDC00 \<le> u \<and> u \<le> 0xDFFF)"

fun encodeURIComponent :: "jsstring \<Rightarrow> js_error + jsstring" where
  "encodeURIComponent [] = Inr []"
| "encodeURIComponent (u # s) =
     (if uriUnescaped u then
        (case encodeURIComponent s of Inl e \<Rightarrow> Inl e | Inr r \<Rightarrow> Inr (u # r))
      else if is_trail_surrogate u then Inl URIError
      else if is_lead_surrogate u then
        (case s of
           [] \<Rightarrow> Inl URIError
         | v # s' \<Rightarrow>
             if is_trail_surrogate v then
               (case encodeURIComponent s' of
                  Inl e \<Rightarrow> Inl e
                | Inr r \<Rightarrow>
                    Inr (escape_code_point
                           ((unat u - 0xD800) * 0x400 + (unat v - 0xDC00) + 0x10000) @ r))
             else Inl URIError)
      else
        (case encodeURIComponent s of
           Inl e \<Rightarrow> Inl e
         | Inr r \<Rightarrow> Inr (escape_code_point (unat u) @ r)))"

text \<open>
  The entries of a \<open>FormData\<close> object are scalar-value strings: when the entry list
  is built, every surrogate without its partner in a control's value is replaced by
  U+FFFD. \<open>well_formed\<close> says that a string holds no such surrogate.
\<close>

fun to_scalar_values :: "jsstring \<Rightarrow> jsstring" where
  "to_scalar_values [] = []"
| "to_scalar_values (u # s) =
     (if is_lead_surrogate u then
        (case s of
           [] \<Rightarrow> [0xFFFD]
         | v # s' \<Rightarrow>
             if is_trail_surrogate v then u # v # to_scalar_values s'
             else 0xFFFD # to_scalar_values s)
      else if is_trail_surrogate u then 0xFFFD # to_scalar_values s
      else u # to_scalar_values s)"

fun well_formed :: "jsstring \<Rightarrow> bool" where
  "well_formed [] = True"
| "well_formed (u # s) =
     (if is_lead_surrogate u then
        (case s of [] \<Rightarrow> False | v # s' \<Rightarrow> is_trail_surrogate v \<and> well_formed s')
      else \<not> is_trail_surrogate u \<and> well_formed s)"

text \<open>
  The page around the form: the form's controls, the number of toasts shown, the
  pending timers (delay in milliseconds and the link the callback navigates to),
  \<open>window.location.href\<close>, and the trace of the effects in the order they happen.
\<close>

datatype effect = ShowToast | SetTimeout nat | FormReset | ClearDecorations | Navigate jsstring

record page =
  contactForm :: "field list"
  toasts :: nat
  timers :: "(nat \<times> jsstring) list"
  location_href :: jsstring
  trace :: "effect list"

text \<open>
  \<^verbatim>\<open>formData.get(k) || document.getElementById(k).value\<close>: the entry of the first
  control of the form named \<open>k\<close> (its value as a scalar-value string); when there is
  none (\<open>null\<close>) or it is the empty string, the value of the element with id \<open>k\<close>, as
  it is. The elements with these ids are the controls of the form; without such an
  element, reading \<open>value\<close> of \<open>null\<close> throws a TypeError.
\<close>

definition formData_get :: "field list \<Rightarrow> string \<Rightarrow> jsstring option" where
  "formData_get fs k =
     map_option (\<lambda>f. to_scalar_values (fvalue f)) (find (\<lambda>f. fname f = Some k) fs)"

definition element_value :: "field list \<Rightarrow> string \<Rightarrow> js_error + jsstring" where
  "element_value fs k =
     (case find (\<lambda>f. fid f = k) fs of None \<Rightarrow> Inl TypeError | Some f \<Rightarrow> Inr (fvalue f))"

definition form_entry :: "field list \<Rightarrow> string \<Rightarrow> js_error + jsstring" where
  "form_entry fs k =
     (case formData_get fs k of
        None \<Rightarrow> element_value fs k
      | Some v \<Rightarrow> if v \<noteq> [] then Inr v else element_value fs k)"

definition reset_field :: "field \<Rightarrow> field" where
  "reset_field f = f\<lparr>fvalue := defaultValue f\<rparr>"

definition clear_decorations :: "field \<Rightarrow> field" where
  "clear_decorations f =
     (if ''is-valid'' \<in> set (classList f) \<or> ''is-invalid'' \<in> set (classList f)
      then f\<lparr>classList := classList_remove ''is-invalid''
                              (classList_remove ''is-valid'' (classList f))\<rparr>
      else f)"

definition mailto_subject :: "jsstring \<Rightarrow> jsstring" where
  "mailto_subject name = lit ''Portfolio Contact from '' @ name"

definition mailto_body :: "jsstring \<Rightarrow> jsstring \<Rightarrow> jsstring \<Rightarrow> jsstring" where
  "mailto_body name email message =
     lit ''Name: '' @ name @ lit ''\<newline>Email: '' @ email @ lit ''\<newline>\<newline>Message:\<newline>'' @ message"

definition mailto_link :: "jsstring \<Rightarrow> jsstring \<Rightarrow> jsstring" where
  "mailto_link subject body =
     lit ''mailto:syed.asadullah@example.com?subject='' @ subject @ lit ''&body='' @ body"

text \<open>
  \<open>handleFormSubmission\<close>, in the order of its statements: the three entries, the two
  encodings and the link; the toast (the widget of the page's UI library, which shows
  it); the timer of 1000 ms whose callback navigates; the reset of the form; the
  removal of the validation classes.
\<close>

definition handleFormSubmission :: "page \<Rightarrow> js_error + page" where
  "handleFormSubmission pg =
     (case form_entry (contactForm pg) ''contactName'' of Inl e \<Rightarrow> Inl e | Inr name \<Rightarrow>
      case form_entry (contactForm pg) ''contactEmail'' of Inl e \<Rightarrow> Inl e | Inr email \<Rightarrow>
      case form_entry (contactForm pg) ''contactMessage'' of Inl e \<Rightarrow> Inl e | Inr message \<Rightarrow>
      case encodeURIComponent (mailto_subject name) of Inl e \<Rightarrow> Inl e | Inr subject \<Rightarrow>
      case encodeURIComponent (mailto_body name email message) of Inl e \<Rightarrow> Inl e | Inr body \<Rightarrow>
        Inr (pg\<lparr>toasts := toasts pg + 1,
                 timers := timers pg @ [(1000, mailto_link subject body)],
                 contactForm := map clear_decorations (map reset_field (contactForm pg)),
                 trace := trace pg @ [ShowToast, SetTimeout 1000, FormReset, ClearDecorations]\<rparr>))"

text \<open>The submit listener of \<open>setupContactForm\<close>.\<close>

definition on_submit :: "page \<Rightarrow> js_error + page" where
  "on_submit pg =
     (case validateForm (contactForm pg) of
        (ok, fs) \<Rightarrow> if ok then handleFormSubmission (pg\<lparr>contactForm := fs\<rparr>) else Inr (pg\<lparr>contactForm := fs\<rparr>))"

text \<open>
  The passing of \<open>ms\<close> milliseconds: every timer that is due runs its callback (the
  navigation), in the order the timers were set; the others stay, with less to wait.
\<close>

definition timer_step :: "nat \<Rightarrow> page \<Rightarrow> nat \<times> jsstring \<Rightarrow> page" where
  "timer_step ms pg t =
     (case t of (d, link) \<Rightarrow>
        if d \<le> ms then pg\<lparr>location_href := link, trace := trace pg @ [Navigate link]\<rparr>
        else pg\<lparr>timers := timers pg @ [(d - ms, link)]\<rparr>)"

definition elapse :: "nat \<Rightarrow> page \<Rightarrow> page" where
  "elapse ms pg = foldl (timer_step ms) (pg\<lparr>timers := []\<rparr>) (timers pg)"

definition ex_contact_form :: "field list" where
  "ex_contact_form =
     [\<lparr>fid = ''contactName'', fname = Some ''contactName'', ftype = ''text'', required = True,
       fvalue = lit ''Ann'', defaultValue = [], classList = [''form-control''],
       nextElementSibling = Some \<lparr>fb_classes = [''invalid-feedback''], textContent = ''''\<rparr>\<rparr>,
      \<lparr>fid = ''contactEmail'', fname = Some ''contactEmail'', ftype = ''email'', required = True,
       fvalue = lit ''a@b.co'', defaultValue = [], classList = [''form-control''],
       nextElementSibling = Some \<lparr>fb_classes = [''invalid-feedback''], textContent = ''''\<rparr>\<rparr>,
      \<lparr>fid = ''contactMessage'', fname = Some ''contactMessage'', ftype = ''textarea'',
       required = True, fvalue = lit ''Hi'', defaultValue = [], classList = [''form-control''],
       nextElementSibling = Some \<lparr>fb_classes = [''invalid-feedback''], textContent = ''''\<rparr>\<rparr>]"

definition ex_page :: page where
  "ex_page = \<lparr>contactForm = ex_contact_form, toasts = 0, timers = [], location_href = [], trace = []\<rparr>"

definition ex_link :: jsstring where
  "ex_link = lit ''mailto:syed.asadullah@example.com?subject=Portfolio%20Contact%20from%20Ann&body=Name%3A%20Ann%0AEmail%3A%20a%40b.co%0A%0AMessage%3A%0AHi''"

text \<open>
  The sample form with a surrogate without partner as the name: once in the named
  control, once in a control that has the id but no name.
\<close>

definition ex_surrogate_form :: "field list" where
  "ex_surrogate_form =
     [\<lparr>fid = ''contactName'', fname = Some ''contactName'', ftype = ''text'', required = True,
       fvalue = [0xD800], defaultValue = [], classList = [''form-control''],
       nextElementSibling = Some \<lparr>fb_classes = [''invalid-feedback''], textContent = ''''\<rparr>\<rparr>,
      \<lparr>fid = ''contactEmail'', fname = Some ''contactEmail'', ftype = ''email'', required = True,
       fvalue = lit ''a@b.co'', defaultValue = [], classList = [''form-control''],
       nextElementSibling = Some \<lparr>fb_classes = [''invalid-feedback''], textContent = ''''\<rparr>\<rparr>,
      \<lparr>fid = ''contactMessage'', fname = Some ''contactMessage'', ftype = ''textarea'',
       required = True, fvalue = lit ''Hi'', defaultValue = [], classList = [''form-control''],
       nextElementSibling = Some \<lparr>fb_classes = [''invalid-feedback''], textContent = ''''\<rparr>\<rparr>]"

definition ex_surrogate_page :: page where
  "ex_surrogate_page =
     \<lparr>contactForm = ex_surrogate_form, toasts = 0, timers = [], location_href = [], trace = []\<rparr>"

definition ex_surrogate_link :: jsstring where
  "ex_surrogate_link = lit ''mailto:syed.asadullah@example.com?subject=Portfolio%20Contact%20from%20%EF%BF%BD&body=Name%3A%20%EF%BF%BD%0AEmail%3A%20a%40b.co%0A%0AMessage%3A%0AHi''"

definition ex_unnamed_form :: "field list" where
  "ex_unnamed_form =
     [\<lparr>fid = ''contactName'', fname = None, ftype = ''text'', required = True,
       fvalue = [0xD800], defaultValue = [], classList = [''form-control''],
       nextElementSibling = Some \<lparr>fb_classes = [''invalid-feedback''], textContent = ''''\<rparr>\<rparr>,
      \<lparr>fid = ''contactEmail'', fname = Some ''contactEmail'', ftype = ''email'', required = True,
       fvalue = lit ''a@b.co'', defaultValue = [], classList = [''form-control''],
       nextElementSibling = Some \<lparr>fb_classes = [''invalid-feedback''], textContent = ''''\<rparr>\<rparr>,
      \<lparr>fid = ''contactMessage'', fname = Some ''contactMessage'', ftype = ''textarea'',
       required = True, fvalue = lit ''Hi'', defaultValue = [], classList = [''form-control''],
       nextElementSibling = Some \<lparr>fb_classes = [''invalid-feedback''], textContent = ''''\<rparr>\<rparr>]"

definition ex_unnamed_page :: page where
  "ex_unnamed_page =
     \<lparr>contactForm = ex_unnamed_form, toasts = 0, timers = [], location_href = [], trace = []\<rparr>"

text \<open>What an observer of the page sees: the location, the values and the classes of
  the controls, and the effects so far.\<close>

definition page_view :: "page \<Rightarrow> jsstring \<times> jsstring list \<times> string list list \<times> effect list" where
  "page_view pg = (location_href pg, map fvalue (contactForm pg), map classList (contactForm pg), trace pg)"

section \<open>Particle scene\<close>

text \<open>
  The state of the decorative scene: the app's flag \<open>isWebGLEnabled\<close> and whether
  \<open>webglScene\<close> is set; whether \<open>window.portfolioApp\<close> refers to the app; what the
  capability check returns; the canvas (present or not, its \<open>display\<close> style); the size
  of the window; the aspect held by the camera and the one its projection matrix was
  computed for (width and height, undivided), the size of the renderer; whether the
  resize listener is installed; the number of \<open>animate\<close> callbacks queued for the next
  display frame; and two counters, the frames rendered and the rotation steps taken.
\<close>

record scene =
  isWebGLEnabled :: bool
  webglScene :: bool
  portfolioApp_global :: bool
  webglSupported :: bool
  canvasPresent :: bool
  canvasDisplay :: string
  innerWidth :: int
  innerHeight :: int
  cameraAspect :: "(int \<times> int) option"
  projectionAspect :: "(int \<times> int) option"
  rendererSize :: "(int \<times> int) option"
  resizeListener :: bool
  animateQueued :: nat
  framesRendered :: nat
  rotationSteps :: nat
  documentHidden :: bool

text \<open>
  The constructor, in a window of the given size: the flag is off and no scene is
  set. The listener of \<open>DOMContentLoaded\<close> evaluates \<^verbatim>\<open>new PortfolioApp()\<close> and drops the
  result, so \<open>window.portfolioApp\<close> does not refer to the app.
\<close>

definition new_scene :: "int \<Rightarrow> int \<Rightarrow> bool \<Rightarrow> bool \<Rightarrow> scene" where
  "new_scene w h supported canvas =
     \<lparr>isWebGLEnabled = False, webglScene = False, portfolioApp_global = False,
      webglSupported = supported, canvasPresent = canvas, canvasDisplay = '''',
      innerWidth = w, innerHeight = h, cameraAspect = None, projectionAspect = None,
      rendererSize = None, resizeListener = False, animateQueued = 0, framesRendered = 0,
      rotationSteps = 0, documentHidden = False\<rparr>"

text \<open>
  \<open>animate\<close>: while the flag is on, ask for the next frame, rotate the particles and
  render; otherwise nothing at all.
\<close>

definition animate :: "scene \<Rightarrow> scene" where
  "animate st =
     (if isWebGLEnabled st then
        st\<lparr>animateQueued := animateQueued st + 1,
           rotationSteps := rotationSteps st + 1,
           framesRendered := framesRendered st + 1\<rparr>
      else st)"

text \<open>
  \<open>initWebGL\<close>: without the canvas, return; otherwise build camera and renderer for the
  current window, call \<open>animate\<close> once, install the resize listener and set
  \<open>webglScene\<close>.
\<close>

definition initWebGL :: "scene \<Rightarrow> scene" where
  "initWebGL st =
     (if \<not> canvasPresent st then st
      else
        (let st1 = st\<lparr>cameraAspect := Some (innerWidth st, innerHeight st),
                       projectionAspect := Some (innerWidth st, innerHeight st),
                       rendererSize := Some (innerWidth st, innerHeight st)\<rparr>;
             st2 = animate st1
         in st2\<lparr>resizeListener := True, webglScene := True\<rparr>))"

text \<open>\<open>setupWebGL\<close> calls \<open>initWebGL\<close> first and sets the flag after it.\<close>

definition setupWebGL :: "scene \<Rightarrow> scene" where
  "setupWebGL st =
     (if innerWidth st > 768 \<and> webglSupported st
      then (initWebGL st)\<lparr>isWebGLEnabled := True\<rparr>
      else st)"

definition app_start :: "int \<Rightarrow> int \<Rightarrow> bool \<Rightarrow> bool \<Rightarrow> scene" where
  "app_start w h supported canvas = setupWebGL (new_scene w h supported canvas)"

text \<open>The resize listener that \<open>initWebGL\<close> installs, after the window took its new size.\<close>

definition on_resize :: "int \<Rightarrow> int \<Rightarrow> scene \<Rightarrow> scene" where
  "on_resize w h st0 =
     (let st = st0\<lparr>innerWidth := w, innerHeight := h\<rparr> in
      if \<not> resizeListener st then st
      else if innerWidth st \<le> 768 then
        st\<lparr>isWebGLEnabled := False, canvasDisplay := ''none''\<rparr>
      else if \<not> isWebGLEnabled st \<and> webglSupported st then
        st\<lparr>isWebGLEnabled := True, canvasDisplay := ''block'',
           cameraAspect := Some (innerWidth st, innerHeight st),
           projectionAspect := Some (innerWidth st, innerHeight st),
           rendererSize := Some (innerWidth st, innerHeight st)\<rparr>
      else st)"

text \<open>A display frame runs the \<open>animate\<close> callbacks queued before it.\<close>

definition on_animation_frame :: "scene \<Rightarrow> scene" where
  "on_animation_frame st = (animate ^^ animateQueued st) (st\<lparr>animateQueued := 0\<rparr>)"

text \<open>
  The listener of \<open>visibilitychange\<close>: \<open>app\<close> is \<open>window.portfolioApp\<close>, and the body runs
  only when \<open>app\<close> is set and its flag is on.
\<close>

definition on_visibilitychange :: "bool \<Rightarrow> scene \<Rightarrow> scene" where
  "on_visibilitychange hidden st0 =
     (let st = st0\<lparr>documentHidden := hidden\<rparr> in
      if portfolioApp_global st \<and> isWebGLEnabled st then
        (if documentHidden st then st\<lparr>isWebGLEnabled := False\<rparr>
         else st\<lparr>isWebGLEnabled := True\<rparr>)
      else st)"

datatype scene_event = Resize int int | AnimationFrame | VisibilityChange bool

fun scene_step :: "scene \<Rightarrow> scene_event \<Rightarrow> scene" where
  "scene_step st (Resize w h) = on_resize w h st"
| "scene_step st AnimationFrame = on_animation_frame st"
| "scene_step st (VisibilityChange hidden) = on_visibilitychange hidden st"

definition scene_run :: "scene_event list \<Rightarrow> scene \<Rightarrow> scene" where
  "scene_run evs st = foldl scene_step st evs"

text \<open>
  A scene whose loop is running, as \<open>initWebGL\<close> would leave it had the flag been on
  when \<open>animate\<close> was first called: one callback queued, one frame rendered.
\<close>

definition ex_running_scene :: scene where
  "ex_running_scene =
     \<lparr>isWebGLEnabled = True, webglScene = True, portfolioApp_global = True,
      webglSupported = True, canvasPresent = True, canvasDisplay = '''',
      innerWidth = 1024, innerHeight = 768, cameraAspect = Some (1024, 768),
      projectionAspect = Some (1024, 768), rendererSize = Some (1024, 768),
      resizeListener = True, animateQueued = 1, framesRendered = 1, rotationSteps = 1,
      documentHidden = False\<rparr>"

section \<open>Properties of the field validator and of the form pass\<close>

lemma regex_test_Plus:
  "regex_test (Plus a # r) s \<longleftrightarrow>
     (\<exists>x y. s = x @ y \<and> x \<noteq> [] \<and> list_all (atom_ok a) x \<and> regex_test r y)"
proof (induction s)
  case Nil
  then show ?case by simp
next
  case (Cons u s)
  show ?case
  proof
    assume "regex_test (Plus a # r) (u # s)"
    then have ok: "atom_ok a u" and alt: "regex_test (Plus a # r) s \<or> regex_test r s"
      by simp_all
    from alt show "\<exists>x y. u # s = x @ y \<and> x \<noteq> [] \<and> list_all (atom_ok a) x \<and> regex_test r y"
    proof
      assume "regex_test (Plus a # r) s"
      with Cons.IH obtain x y where
        "s = x @ y" "x \<noteq> []" "list_all (atom_ok a) x" "regex_test r y" by blast
      with ok have "u # s = (u # x) @ y \<and> u # x \<noteq> [] \<and> list_all (atom_ok a) (u # x) \<and>
        regex_test r y" by simp
      then show ?thesis by blast
    next
      assume "regex_test r s"
      with ok have "u # s = [u] @ s \<and> [u] \<noteq> [] \<and> list_all (atom_ok a) [u] \<and> regex_test r s"
        by simp
      then show ?thesis by blast
    qed
  next
    assume "\<exists>x y. u # s = x @ y \<and> x \<noteq> [] \<and> list_all (atom_ok a) x \<and> regex_test r y"
    then obtain x y where xy: "u # s = x @ y" "x \<noteq> []" "list_all (atom_ok a) x"
      "regex_test r y" by blast
    then obtain x' where x: "x = u # x'" by (cases x) auto
    with xy have s: "s = x' @ y" and ok: "atom_ok a u" and all: "list_all (atom_ok a) x'"
      by simp_all
    show "regex_test (Plus a # r) (u # s)"
    proof (cases "x' = []")
      case True
      with s xy(4) ok show ?thesis by simp
    next
      case False
      with s all xy(4) Cons.IH have "regex_test (Plus a # r) s" by blast
      with ok show ?thesis by simp
    qed
  qed
qed

lemma regex_test_Once:
  "regex_test (Once a # r) s \<longleftrightarrow> (\<exists>u y. s = u # y \<and> atom_ok a u \<and> regex_test r y)"
  by (cases s) auto

lemma atom_ok_NotSpaceAt: "atom_ok NotSpaceAt = (\<lambda>u. \<not> is_space u \<and> u \<noteq> 0x40)"
  by (rule ext) simp

lemma emailRegex_spec: "regex_test emailRegex v \<longleftrightarrow> spec_email_pattern v"
  unfolding emailRegex_def spec_email_pattern_def regex_test_Plus regex_test_Once
    atom_ok_NotSpaceAt
  by (simp only: regex_test.simps atom_ok.simps) (auto; blast)

lemma validateField_fst: "fst (validateField f) = fst (field_verdict f)"
  by (simp add: validateField_def split: prod.splits)

text \<open>
  Claim C1 as stated, on the field's value as it is read, fails where the value has
  whitespace at its ends. A required text field holding two spaces is not empty and
  is no email field, yet it is invalid with the required-field message. An optional
  email field holding a no-break space, "a@b.co" and a no-break space holds a
  non-empty value that is not of the shape of the pattern, yet it is valid. A
  required email field holding one no-break space holds a non-empty value that is not
  of the shape of the pattern, yet its message is the required-field one, not the
  email one.
\<close>

theorem validateField_untrimmed_counterexample:
  "required ex_blank_required \<and> fvalue ex_blank_required \<noteq> [] \<and>
   ftype ex_blank_required \<noteq> ''email'' \<and>
   field_verdict ex_blank_required = (False, ''This field is required.'') \<and>
   fst (validateField ex_blank_required) = False \<and>
   ftype ex_nbsp_email = ''email'' \<and> fvalue ex_nbsp_email \<noteq> [] \<and>
   \<not> spec_email_pattern (fvalue ex_nbsp_email) \<and>
   field_verdict ex_nbsp_email = (True, []) \<and>
   fst (validateField ex_nbsp_email) = True \<and>
   required ex_nbsp_required_email \<and> ftype ex_nbsp_required_email = ''email'' \<and>
   fvalue ex_nbsp_required_email \<noteq> [] \<and>
   \<not> spec_email_pattern (fvalue ex_nbsp_required_email) \<and>
   field_verdict ex_nbsp_required_email = (False, ''This field is required.'') \<and>
   fst (validateField ex_nbsp_required_email) = False"
proof -
  have a: "required ex_blank_required \<and> fvalue ex_blank_required \<noteq> [] \<and>
      ftype ex_blank_required \<noteq> ''email'' \<and>
      field_verdict ex_blank_required = (False, ''This field is required.'')"
    by code_simp
  have b: "ftype ex_nbsp_email = ''email'' \<and> fvalue ex_nbsp_email \<noteq> [] \<and>
      \<not> regex_test emailRegex (fvalue ex_nbsp_email) \<and>
      field_verdict ex_nbsp_email = (True, [])"
    by code_simp
  have c: "required ex_nbsp_required_email \<and> ftype ex_nbsp_required_email = ''email'' \<and>
      fvalue ex_nbsp_required_email \<noteq> [] \<and>
      \<not> regex_test emailRegex (fvalue ex_nbsp_required_email) \<and>
      field_verdict ex_nbsp_required_email = (False, ''This field is required.'')"
    by code_simp
  from a b c show ?thesis by (simp add: validateField_fst emailRegex_spec)
qed

text \<open>
  Claim C1, amended. Writing \<open>v\<close> for the value \<open>validateField\<close> checks (the
  field's value with the whitespace at its ends removed): a required field with
  empty \<open>v\<close> is invalid with the message
  "This field is required."; an email field with non-empty \<open>v\<close> that is not of the
  shape of the pattern is invalid with the message "Please enter a valid email
  address."; every other field is valid with the empty message. \<open>validateField\<close>
  returns the flag of the verdict; an invalid field is marked \<open>is-invalid\<close> and the
  message goes to its feedback label, a valid one is marked \<open>is-valid\<close> and its label
  is left as it was.
\<close>

theorem validateField_cases:
  "(required f \<and> trim (fvalue f) = [] \<longrightarrow>
      field_verdict f = (False, ''This field is required.'') \<and>
      validateField f =
        (False, f\<lparr>classList := classList_add ''is-invalid''
                                 (classList_remove ''is-valid'' (classList f)),
                    nextElementSibling :=
                      set_feedback ''This field is required.'' (nextElementSibling f)\<rparr>))
   \<and> (ftype f = ''email'' \<and> trim (fvalue f) \<noteq> [] \<and> \<not> spec_email_pattern (trim (fvalue f)) \<longrightarrow>
      field_verdict f = (False, ''Please enter a valid email address.'') \<and>
      validateField f =
        (False, f\<lparr>classList := classList_add ''is-invalid''
                                 (classList_remove ''is-valid'' (classList f)),
                    nextElementSibling :=
                      set_feedback ''Please enter a valid email address.''
                        (nextElementSibling f)\<rparr>))
   \<and> (\<not> (required f \<and> trim (fvalue f) = []) \<and>
       \<not> (ftype f = ''email'' \<and> trim (fvalue f) \<noteq> [] \<and>
          \<not> spec_email_pattern (trim (fvalue f))) \<longrightarrow>
      field_verdict f = (True, []) \<and>
      validateField f =
        (True, f\<lparr>classList := classList_add ''is-valid''
                                (classList_remove ''is-invalid'' (classList f))\<rparr>))"
proof -
  have v: "field_verdict f =
     (if required f \<and> trim (fvalue f) = [] then (False, ''This field is required.'')
      else if ftype f = ''email'' \<and> trim (fvalue f) \<noteq> [] \<and>
              \<not> spec_email_pattern (trim (fvalue f))
      then (False, ''Please enter a valid email address.'')
      else (True, []))"
    by (simp add: field_verdict_def Let_def emailRegex_spec)
  show ?thesis
    unfolding validateField_def v by simp
qed

text \<open>
  The three cases of C1 at a blank required field, at the required email field
  holding "not-an-email" (the email check decides once the value is non-empty) and
  at an optional email field holding "a@b.co" between two no-break spaces.
\<close>

theorem validateField_cases_witness:
  "required ex_blank_required \<and> trim (fvalue ex_blank_required) = [] \<and>
   field_verdict ex_blank_required = (False, ''This field is required.'') \<and>
   fst (validateField ex_blank_required) = False \<and>
   classList (snd (validateField ex_blank_required)) = [''form-control'', ''is-invalid''] \<and>
   map_option textContent (nextElementSibling (snd (validateField ex_blank_required))) =
     Some ''This field is required.'' \<and>
   ftype ex_bad_email = ''email'' \<and> trim (fvalue ex_bad_email) \<noteq> [] \<and>
   \<not> spec_email_pattern (trim (fvalue ex_bad_email)) \<and>
   field_verdict ex_bad_email = (False, ''Please enter a valid email address.'') \<and>
   fst (validateField ex_bad_email) = False \<and>
   classList (snd (validateField ex_bad_email)) = [''form-control'', ''is-invalid''] \<and>
   map_option textContent (nextElementSibling (snd (validateField ex_bad_email))) =
     Some ''Please enter a valid email address.'' \<and>
   spec_email_pattern (trim (fvalue ex_nbsp_email)) \<and>
   field_verdict ex_nbsp_email = (True, []) \<and>
   fst (validateField ex_nbsp_email) = True \<and>
   classList (snd (validateField ex_nbsp_email)) = [''form-control'', ''is-valid'']"
proof -
  have b: "required ex_blank_required \<and> trim (fvalue ex_blank_required) = []"
    by code_simp
  have e1: "ftype ex_bad_email = ''email'' \<and> trim (fvalue ex_bad_email) \<noteq> []"
    by code_simp
  have "\<not> regex_test emailRegex (trim (fvalue ex_bad_email))"
    by code_simp
  then have e2: "\<not> spec_email_pattern (trim (fvalue ex_bad_email))"
    by (simp add: emailRegex_spec)
  have g1: "\<not> required ex_nbsp_email \<and> trim (fvalue ex_nbsp_email) \<noteq> []"
    by code_simp
  have "regex_test emailRegex (trim (fvalue ex_nbsp_email))"
    by code_simp
  then have g2: "spec_email_pattern (trim (fvalue ex_nbsp_email))"
    by (simp add: emailRegex_spec)
  have c: "classList ex_blank_required = [''form-control''] \<and>
      nextElementSibling ex_blank_required =
        Some \<lparr>fb_classes = [''invalid-feedback''], textContent = []\<rparr> \<and>
      classList ex_bad_email = [''form-control'', ''is-valid''] \<and>
      nextElementSibling ex_bad_email =
        Some \<lparr>fb_classes = [''invalid-feedback''], textContent = []\<rparr> \<and>
      classList ex_nbsp_email = [''form-control'']"
    by (simp add: ex_blank_required_def ex_bad_email_def ex_nbsp_email_def)
  from b e1 e2 g1 g2 c validateField_cases [of ex_blank_required]
    validateField_cases [of ex_bad_email] validateField_cases [of ex_nbsp_email]
  show ?thesis
    by (simp add: classList_add_def classList_remove_def set_feedback_def)
qed

lemma dropWhile_all: "list_all P s \<Longrightarrow> dropWhile P s = []"
  by (induction s) auto

lemma dropWhile_hd: "xs \<noteq> [] \<Longrightarrow> \<not> P (hd xs) \<Longrightarrow> dropWhile P xs = xs"
  by (cases xs) auto

lemma trim_all_space: "list_all is_space s \<Longrightarrow> trim s = []"
  by (simp add: trim_def dropWhile_all)

lemma trim_idem: "trim (trim s) = trim s"
proof -
  define s' where "s' = dropWhile is_space s"
  define t where "t = dropWhile is_space (rev s')"
  have tr: "trim s = rev t" by (simp add: trim_def s'_def t_def)
  show ?thesis
  proof (cases "t = []")
    case True
    with tr have "trim s = []" by simp
    moreover have "trim [] = []" by (simp add: trim_def)
    ultimately show ?thesis by simp
  next
    case False
    then have ht: "\<not> is_space (hd t)" unfolding t_def by (rule hd_dropWhile)
    from False have "rev s' \<noteq> []" by (auto simp: t_def)
    then have s'ne: "s' \<noteq> []" by simp
    then have hs: "\<not> is_space (hd s')" unfolding s'_def by (rule hd_dropWhile)
    obtain pre where "rev s' = pre @ t"
      unfolding t_def by (metis takeWhile_dropWhile_id)
    with False have "last t = last (rev s')" by simp
    also have "\<dots> = hd s'" using s'ne by (simp add: last_rev)
    finally have lt: "\<not> is_space (last t)" using hs by simp
    have "hd (rev t) = last t" using False by (simp add: hd_rev)
    with lt False have d1: "dropWhile is_space (rev t) = rev t"
      by (simp add: dropWhile_hd)
    from ht False have d2: "dropWhile is_space t = t" by (simp add: dropWhile_hd)
    show ?thesis unfolding tr by (simp add: trim_def d1 d2)
  qed
qed

text \<open>
  Claim C9. The value is trimmed before it is checked: a required field holding only
  whitespace is invalid with the required-field message, an optional email field
  holding only whitespace is valid with the empty message (the pattern is not applied),
  and the verdict of a field is the verdict of the field with its value trimmed.
\<close>

theorem validateField_trims:
  "(required f \<and> list_all is_space (fvalue f) \<longrightarrow>
      field_verdict f = (False, ''This field is required.'') \<and> \<not> fst (validateField f))
   \<and> (\<not> required f \<and> ftype f = ''email'' \<and> list_all is_space (fvalue f) \<longrightarrow>
      field_verdict f = (True, '''') \<and> fst (validateField f))
   \<and> field_verdict f = field_verdict (f\<lparr>fvalue := trim (fvalue f)\<rparr>)"
  unfolding validateField_fst
  by (simp add: field_verdict_def Let_def trim_all_space trim_idem)

text \<open>
  C9 at a required field holding two spaces and at an optional email field holding
  three spaces.
\<close>

theorem validateField_trims_witness:
  "required ex_blank_required \<and> list_all is_space (fvalue ex_blank_required) \<and>
   field_verdict ex_blank_required = (False, ''This field is required.'') \<and>
   fst (validateField ex_blank_required) = False \<and>
   required ex_blank_optional_email = False \<and> ftype ex_blank_optional_email = ''email'' \<and>
   list_all is_space (fvalue ex_blank_optional_email) \<and>
   field_verdict ex_blank_optional_email = (True, '''') \<and>
   fst (validateField ex_blank_optional_email) = True"
proof -
  have a: "required ex_blank_required \<and> list_all is_space (fvalue ex_blank_required)"
    by code_simp
  have b: "\<not> required ex_blank_optional_email \<and> ftype ex_blank_optional_email = ''email'' \<and>
    list_all is_space (fvalue ex_blank_optional_email)"
    by code_simp
  from a b validateField_trims [of ex_blank_required]
    validateField_trims [of ex_blank_optional_email]
  show ?thesis by simp
qed

lemma validateForm_loop_eq:
  "validateForm_loop b fs =
     (b \<and> list_all (\<lambda>f. fst (validateField f)) (filter required fs),
      map (\<lambda>f. if required f then snd (validateField f) else f) fs)"
  by (induction fs arbitrary: b) (auto split: prod.splits)

lemma validateField_invalid_classes:
  "\<not> fst (validateField f) \<Longrightarrow>
     ''is-invalid'' \<in> set (classList (snd (validateField f))) \<and>
     ''is-valid'' \<notin> set (classList (snd (validateField f)))"
  by (auto simp: validateField_def classList_add_def classList_remove_def split: prod.splits if_splits)

text \<open>
  Claim C2. \<open>validateForm\<close> returns the conjunction of \<open>validateField\<close> over the required
  fields of the form; the pass applies \<open>validateField\<close> to every required field (the
  others are left as they were), whatever the verdicts of the fields before it; and
  every required field that fails carries \<open>is-invalid\<close> and not \<open>is-valid\<close> afterwards.
\<close>

theorem validateForm_all_required:
  "fst (validateForm form) = list_all (\<lambda>f. fst (validateField f)) (filter required form)
   \<and> snd (validateForm form) = map (\<lambda>f. if required f then snd (validateField f) else f) form
   \<and> (\<forall>i < length form. required (form ! i) \<and> \<not> fst (validateField (form ! i)) \<longrightarrow>
         ''is-invalid'' \<in> set (classList (snd (validateForm form) ! i)) \<and>
         ''is-valid'' \<notin> set (classList (snd (validateForm form) ! i)))"
  by (simp add: validateForm_def validateForm_loop_eq validateField_invalid_classes)

text \<open>
  C2 at a form whose first and third fields are required and both invalid: the result
  is false, and both fields are marked and get their message in the same pass.
\<close>

theorem validateForm_all_required_witness:
  "fst (validateForm ex_form) = False \<and>
   map classList (snd (validateForm ex_form)) =
     [[''form-control'', ''is-invalid''], [''form-control''], [''form-control'', ''is-invalid'']] \<and>
   map (map_option textContent \<circ> nextElementSibling) (snd (validateForm ex_form)) =
     [Some ''This field is required.'', None, Some ''Please enter a valid email address.'']"
proof -
  have a: "list_all (\<lambda>f. fst (validateField f)) (filter required ex_form) = False"
    by code_simp
  have b: "map classList (map (\<lambda>f. if required f then snd (validateField f) else f) ex_form) =
     [[''form-control'', ''is-invalid''], [''form-control''], [''form-control'', ''is-invalid'']]"
    by code_simp
  have c: "map (map_option textContent \<circ> nextElementSibling)
      (map (\<lambda>f. if required f then snd (validateField f) else f) ex_form) =
     [Some ''This field is required.'', None, Some ''Please enter a valid email address.'']"
    by code_simp
  from a b c validateForm_all_required [of ex_form] show ?thesis by simp
qed

section \<open>Properties of the theme store and of the scroll coordinator\<close>

lemma lit_dark_light: "lit ''dark'' \<noteq> lit ''light''" "lit ''light'' \<noteq> lit ''dark''"
  by (simp_all add: lit_def)

text \<open>
  Claim C4 as stated fails on a stored value that is not a theme name: with "blue"
  in local storage, \<open>setupTheme\<close> applies "blue" (not the default "dark"), and two
  toggles from there end at "light", not at the theme they started from.
\<close>

theorem theme_corrupt_counterexample:
  "currentTheme (setupTheme (new_theme_state ex_store_blue)) = lit ''blue''
   \<and> currentTheme (setupTheme (new_theme_state ex_store_blue)) \<noteq> lit ''dark''
   \<and> currentTheme (toggleTheme (toggleTheme (setupTheme (new_theme_state ex_store_blue))))
       = lit ''light''
   \<and> currentTheme (toggleTheme (toggleTheme (setupTheme (new_theme_state ex_store_blue))))
       \<noteq> currentTheme (setupTheme (new_theme_state ex_store_blue))"
  by (simp add: setupTheme_def setTheme_def toggleTheme_def new_theme_state_def
      ex_store_blue_def Let_def lit_def)

text \<open>
  Claim C4, amended. From the theme "dark" or "light", two toggles return to the
  theme they started from. After \<open>setTheme\<close>, \<open>toggleTheme\<close> and \<open>setupTheme\<close> the stored value
  is the theme last applied. At load, a missing or empty stored value gives the default
  "dark"; any other stored string is applied as it is.
\<close>

theorem theme_toggle_persist:
  "(currentTheme st = lit ''dark'' \<or> currentTheme st = lit ''light'' \<longrightarrow>
      currentTheme (toggleTheme (toggleTheme st)) = currentTheme st)
   \<and> currentTheme (setTheme t st) = t
   \<and> dataTheme (setTheme t st) = Some t
   \<and> localStorage (setTheme t st) ''portfolio-theme'' = Some t
   \<and> localStorage (toggleTheme st) ''portfolio-theme'' = Some (currentTheme (toggleTheme st))
   \<and> localStorage (setupTheme st) ''portfolio-theme'' = Some (currentTheme (setupTheme st))
   \<and> (localStorage st ''portfolio-theme'' = None \<or> localStorage st ''portfolio-theme'' = Some [] \<longrightarrow>
        currentTheme (setupTheme st) = lit ''dark'')
   \<and> (\<forall>v. localStorage st ''portfolio-theme'' = Some v \<and> v \<noteq> [] \<longrightarrow>
        currentTheme (setupTheme st) = v)"
  using lit_dark_light
  by (auto simp: setupTheme_def setTheme_def toggleTheme_def Let_def split: option.splits)

text \<open>
  C4 at an empty local storage (load gives "dark", one toggle stores "light", two
  toggles return to "dark") and at a storage holding "light".
\<close>

theorem theme_toggle_persist_witness:
  "localStorage (new_theme_state Map.empty) ''portfolio-theme'' = None
   \<and> currentTheme (setupTheme (new_theme_state Map.empty)) = lit ''dark''
   \<and> currentTheme (toggleTheme (setupTheme (new_theme_state Map.empty))) = lit ''light''
   \<and> localStorage (toggleTheme (setupTheme (new_theme_state Map.empty))) ''portfolio-theme''
       = Some (lit ''light'')
   \<and> currentTheme (toggleTheme (toggleTheme (setupTheme (new_theme_state Map.empty))))
       = lit ''dark''
   \<and> localStorage (new_theme_state ex_store_light) ''portfolio-theme'' = Some (lit ''light'')
   \<and> currentTheme (setupTheme (new_theme_state ex_store_light)) = lit ''light''"
proof -
  have a: "localStorage (new_theme_state Map.empty) ''portfolio-theme'' = None"
    by (simp add: new_theme_state_def)
  have b: "localStorage (new_theme_state ex_store_light) ''portfolio-theme'' = Some (lit ''light'')
      \<and> lit ''light'' \<noteq> []"
    by (simp add: new_theme_state_def ex_store_light_def lit_def)
  have d: "currentTheme (setupTheme (new_theme_state Map.empty)) = lit ''dark''"
    using a theme_toggle_persist [of "new_theme_state Map.empty"] by simp
  have l: "currentTheme (toggleTheme (setupTheme (new_theme_state Map.empty))) = lit ''light''"
    using d by (simp add: toggleTheme_def setTheme_def Let_def)
  from a b d l theme_toggle_persist [of "setupTheme (new_theme_state Map.empty)"]
    theme_toggle_persist [of "new_theme_state ex_store_light"]
  show ?thesis by (simp add: lit_dark_light)
qed

lemma scroll_inv_step: "scroll_inv st \<Longrightarrow> scroll_inv (scroll_step st e)"
  by (cases e) (auto simp: scroll_inv_def on_scroll_def on_frame_def scroll_callback_def)

lemma scroll_inv_run: "scroll_inv st \<Longrightarrow> scroll_inv (scroll_run evs st)"
  unfolding scroll_run_def
  by (induction evs arbitrary: st) (simp_all add: scroll_inv_step)

lemma scroll_burst:
  "\<not> ticking st \<Longrightarrow> queued st = 0 \<Longrightarrow>
   scroll_run (replicate (Suc n) Scroll) st =
     st\<lparr>queued := 1, requested := requested st + 1, ticking := True\<rparr>"
proof (induction n)
  case 0
  then show ?case by (simp add: scroll_run_def on_scroll_def)
next
  case (Suc n)
  have "scroll_run (replicate (Suc (Suc n)) Scroll) st =
        scroll_step (scroll_run (replicate (Suc n) Scroll) st) Scroll"
    unfolding scroll_run_def replicate_Suc [of "Suc n"] replicate_append_same [symmetric]
    by simp
  with Suc show ?case by (simp add: on_scroll_def)
qed

text \<open>
  Claim C5. After any sequence of scroll events and display frames, at most one update
  is queued, and one is queued exactly while \<open>ticking\<close> is set. From the idle state, any
  positive number of scroll events before the next frame calls \<open>requestAnimationFrame\<close>
  once; the frame then runs the update once and clears the guard.
\<close>

theorem scroll_one_update_per_frame:
  "queued (scroll_run evs scroll_init) \<le> 1
   \<and> (ticking (scroll_run evs scroll_init) \<longleftrightarrow> queued (scroll_run evs scroll_init) = 1)
   \<and> (\<not> ticking st \<and> queued st = 0 \<and> 0 < n \<longrightarrow>
        requested (scroll_run (replicate n Scroll) st) = requested st + 1 \<and>
        queued (scroll_run (replicate n Scroll) st) = 1 \<and>
        ticking (scroll_run (replicate n Scroll) st) \<and>
        updates (scroll_run (replicate n Scroll @ [Frame]) st) = updates st + 1 \<and>
        \<not> ticking (scroll_run (replicate n Scroll @ [Frame]) st) \<and>
        queued (scroll_run (replicate n Scroll @ [Frame]) st) = 0)"
proof -
  have "scroll_inv scroll_init" by (simp add: scroll_inv_def scroll_init_def)
  then have inv: "scroll_inv (scroll_run evs scroll_init)" by (rule scroll_inv_run)
  have burst: "requested (scroll_run (replicate n Scroll) st) = requested st + 1 \<and>
        queued (scroll_run (replicate n Scroll) st) = 1 \<and>
        ticking (scroll_run (replicate n Scroll) st) \<and>
        updates (scroll_run (replicate n Scroll @ [Frame]) st) = updates st + 1 \<and>
        \<not> ticking (scroll_run (replicate n Scroll @ [Frame]) st) \<and>
        queued (scroll_run (replicate n Scroll @ [Frame]) st) = 0"
    if h: "\<not> ticking st" "queued st = 0" "0 < n"
  proof -
    from h(3) obtain m where n: "n = Suc m" by (cases n) auto
    have r: "scroll_run (replicate n Scroll) st =
      st\<lparr>queued := 1, requested := requested st + 1, ticking := True\<rparr>"
      unfolding n using h(1,2) by (rule scroll_burst)
    have f: "scroll_run (replicate n Scroll @ [Frame]) st =
      on_frame (scroll_run (replicate n Scroll) st)"
      by (simp add: scroll_run_def)
    show ?thesis unfolding f unfolding r by (simp add: on_frame_def scroll_callback_def)
  qed
  from inv burst show ?thesis by (auto simp: scroll_inv_def split: if_splits)
qed

text \<open>
  C5 at five scroll events from the initial state, followed by one frame.
\<close>

theorem scroll_one_update_per_frame_witness:
  "ticking scroll_init = False \<and> queued scroll_init = 0 \<and> (0::nat) < 5
   \<and> requested (scroll_run (replicate 5 Scroll) scroll_init) = 1
   \<and> queued (scroll_run (replicate 5 Scroll) scroll_init) = 1
   \<and> updates (scroll_run (replicate 5 Scroll @ [Frame]) scroll_init) = 1
   \<and> queued (scroll_run (replicate 5 Scroll @ [Frame]) scroll_init) = 0"
proof -
  have a: "\<not> ticking scroll_init \<and> queued scroll_init = 0 \<and> (0::nat) < 5"
    by (simp add: scroll_init_def)
  have b: "requested scroll_init = 0 \<and> updates scroll_init = 0"
    by (simp add: scroll_init_def)
  from a b scroll_one_update_per_frame [of "[]" scroll_init 5] show ?thesis by simp
qed

section \<open>Properties of the navigation marker and of the projects gallery\<close>

text \<open>
  Claim C10. When the span of no section contains \<open>scrollY + 100\<close>,
  \<open>updateActiveNavItem\<close> leaves every element as it was: no \<open>active\<close> marker is removed
  and none is added.
\<close>

theorem updateActiveNavItem_no_section:
  assumes "\<forall>s \<in> set sections.
     \<not> (offsetTop s \<le> scrollY + 100 \<and> scrollY + 100 < offsetTop s + offsetHeight s)"
  shows "updateActiveNavItem scrollY sections els = els"
  using assms unfolding updateActiveNavItem_def Let_def
  by (induction sections arbitrary: els) (auto simp: nav_section_step_def Let_def)

text \<open>
  C10 at a scroll position of 550 pixels over two sections spanning 0 to 600 and 700
  to 1200: the probed position 650 lies in neither, and the marker stays on the first
  link. Scrolled to 650, the probed position 750 lies in the second section and the
  marker moves to the second link.
\<close>

theorem updateActiveNavItem_no_section_witness:
  "list_all (\<lambda>s. \<not> (offsetTop s \<le> 550 + 100 \<and> 550 + 100 < offsetTop s + offsetHeight s))
     ex_sections
   \<and> updateActiveNavItem 550 ex_sections ex_links = ex_links
   \<and> map el_classes (updateActiveNavItem 650 ex_sections ex_links) =
       [[''nav-link''], [''nav-link'', ''active'']]"
proof -
  have a: "\<forall>s \<in> set ex_sections.
     \<not> (offsetTop s \<le> 550 + 100 \<and> 550 + 100 < offsetTop s + offsetHeight s)"
    by (simp add: ex_sections_def)
  have b: "map el_classes (updateActiveNavItem 650 ex_sections ex_links) =
       [[''nav-link''], [''nav-link'', ''active'']]"
    by (simp add: updateActiveNavItem_def nav_section_step_def ex_sections_def ex_links_def
        clear_nav_links_def classList_remove_def classList_add_def)
  from a b updateActiveNavItem_no_section [OF a, of ex_links] show ?thesis
    by (simp add: list_all_iff)
qed

lemma append_cards_JObj:
  "append_cards (map JObj ps) i cs =
     (None, cs @ map (\<lambda>(p, k). card_of p k) (zip ps [i..<i + length ps]))"
proof (induction ps arbitrary: i cs)
  case Nil
  then show ?case by simp
next
  case (Cons p ps)
  have "i < i + length (p # ps)" by simp
  then have "[i..<i + length (p # ps)] = i # [Suc i..<i + length (p # ps)]"
    by (rule upt_conv_Cons)
  then have "[i..<i + length (p # ps)] = i # [Suc i..<Suc i + length ps]"
    by simp
  with Cons show ?case by (simp add: createProjectCard_def)
qed

lemma renderFallbackProjects_eq:
  "renderFallbackProjects g =
     (None, g\<lparr>projects := Arr (map JObj fallbackProjects), container := fallback_cards\<rparr>)"
proof -
  have "length fallbackProjects = 4" by (simp add: fallbackProjects_def)
  then show ?thesis
    by (simp add: renderFallbackProjects_def renderProjects_def append_cards_JObj
        fallback_cards_def)
qed

text \<open>
  Claim C3. When the fetch rejects, when the body does not parse, and when rendering
  the parsed value throws, \<open>loadProjects\<close> ends without an exception and the container
  holds exactly the four fallback cards, in the order of the built-in list. When an
  empty array comes back, the container is empty and nothing is thrown.
\<close>

theorem loadProjects_fallback:
  "loadProjects FetchRejected g =
     (None, g\<lparr>projects := Arr (map JObj fallbackProjects), container := fallback_cards,
              logged_errors := logged_errors g + 1\<rparr>)
   \<and> loadProjects JsonRejected g =
     (None, g\<lparr>projects := Arr (map JObj fallbackProjects), container := fallback_cards,
              logged_errors := logged_errors g + 1\<rparr>)
   \<and> (fst (renderProjects (g\<lparr>projects := v\<rparr>)) \<noteq> None \<longrightarrow>
        fst (loadProjects (Parsed v) g) = None \<and>
        container (snd (loadProjects (Parsed v) g)) = fallback_cards)
   \<and> loadProjects (Parsed (Arr [])) g = (None, g\<lparr>projects := Arr [], container := []\<rparr>)
   \<and> length fallback_cards = 4
   \<and> map title_text fallback_cards =
       [lit ''JAVA IN MY STYLE'', lit ''JAVASCRIPT INTERMEDIATE IN MY STYLE'',
        lit ''ML IN MY STYLE'', lit ''AI IN MY STYLE'']
   \<and> map delay_index fallback_cards = [0, 1, 2, 3]"
proof -
  have l: "length fallbackProjects = 4" by (simp add: fallbackProjects_def)
  have u: "[0..<4] = [0, 1, 2, Suc 2]" by (simp add: upt_rec)
  have t: "map title_text fallback_cards =
       [lit ''JAVA IN MY STYLE'', lit ''JAVASCRIPT INTERMEDIATE IN MY STYLE'',
        lit ''ML IN MY STYLE'', lit ''AI IN MY STYLE'']"
    unfolding fallback_cards_def fallbackProjects_def u by (simp add: card_of_def)
  have d: "map delay_index fallback_cards = [0, 1, 2, 3]"
    unfolding fallback_cards_def fallbackProjects_def u by (simp add: card_of_def)
  have n: "length fallback_cards = 4" using l by (simp add: fallback_cards_def)
  show ?thesis
    using t d n
    by (auto simp: loadProjects_def renderFallbackProjects_eq log_error_def renderProjects_def
        split: prod.splits option.splits json_value.splits)
qed

text \<open>
  C3 at a document that is not an array and at an array whose second element is
  \<open>null\<close>: rendering throws, and the gallery ends with the four fallback cards.
\<close>

theorem loadProjects_fallback_witness:
  "fst (renderProjects (ex_gallery\<lparr>projects := NotArray\<rparr>)) = Some TypeError
   \<and> container (snd (loadProjects (Parsed NotArray) ex_gallery)) = fallback_cards
   \<and> fst (renderProjects (ex_gallery\<lparr>projects := Arr [JObj ex_project, JNull]\<rparr>)) = Some TypeError
   \<and> container (snd (loadProjects (Parsed (Arr [JObj ex_project, JNull])) ex_gallery))
       = fallback_cards
   \<and> container (snd (loadProjects (Parsed (Arr [])) ex_gallery)) = []
   \<and> container (snd (loadProjects (Parsed (Arr [JObj ex_project])) ex_gallery))
       = [card_of ex_project 0]"
proof -
  have a: "fst (renderProjects (ex_gallery\<lparr>projects := NotArray\<rparr>)) = Some TypeError"
    by (simp add: renderProjects_def)
  have b: "fst (renderProjects (ex_gallery\<lparr>projects := Arr [JObj ex_project, JNull]\<rparr>))
      = Some TypeError"
    by (simp add: renderProjects_def createProjectCard_def)
  have c: "container (snd (loadProjects (Parsed (Arr [JObj ex_project])) ex_gallery))
       = [card_of ex_project 0]"
    by (simp add: loadProjects_def renderProjects_def createProjectCard_def)
  from a b c loadProjects_fallback [of ex_gallery NotArray]
    loadProjects_fallback [of ex_gallery "Arr [JObj ex_project, JNull]"]
  show ?thesis by simp
qed

section \<open>Properties of the contact form submission\<close>

lemmas enc_defs = uriUnescaped_def is_trail_surrogate_def is_lead_surrogate_def
  escape_code_point_def utf8_octets_def percent_octet_def hex_digit_def lit_def

lemma validateField_keeps:
  "fvalue (snd (validateField f)) = fvalue f" "fid (snd (validateField f)) = fid f"
  "fname (snd (validateField f)) = fname f" "defaultValue (snd (validateField f)) = defaultValue f"
  by (simp_all add: validateField_def split: prod.splits)

lemma find_map_keep:
  "(\<And>x. P (g x) = P x) \<Longrightarrow> find P (map g xs) = map_option g (find P xs)"
  by (induction xs) simp_all

lemma form_entry_validateForm: "form_entry (snd (validateForm fs)) k = form_entry fs k"
proof -
  let ?g = "\<lambda>f. if required f then snd (validateField f) else f"
  have s: "snd (validateForm fs) = map ?g fs"
    by (simp add: validateForm_def validateForm_loop_eq)
  have a: "find (\<lambda>f. fname f = Some k) (map ?g fs) = map_option ?g (find (\<lambda>f. fname f = Some k) fs)"
    by (rule find_map_keep) (simp add: validateField_keeps)
  have b: "find (\<lambda>f. fid f = k) (map ?g fs) = map_option ?g (find (\<lambda>f. fid f = k) fs)"
    by (rule find_map_keep) (simp add: validateField_keeps)
  show ?thesis
    unfolding s form_entry_def formData_get_def element_value_def a b
    by (auto simp: validateField_keeps split: option.splits)
qed

lemma defaultValue_validateForm:
  "map defaultValue (snd (validateForm fs)) = map defaultValue fs"
  by (simp add: validateForm_def validateForm_loop_eq validateField_keeps)

lemma fvalue_clear_reset: "fvalue (clear_decorations (reset_field f)) = defaultValue f"
  by (simp add: clear_decorations_def reset_field_def)

lemma clear_decorations_classes:
  "''is-valid'' \<notin> set (classList (clear_decorations f)) \<and>
   ''is-invalid'' \<notin> set (classList (clear_decorations f))"
  by (simp add: clear_decorations_def classList_remove_def)

lemma ex_contact_form_valid:
  "validateForm ex_contact_form =
     (True, map (\<lambda>f. f\<lparr>classList := [''form-control'', ''is-valid'']\<rparr>) ex_contact_form)"
  by code_simp

lemma ex_entries:
  "form_entry ex_contact_form ''contactName'' = Inr (lit ''Ann'')"
  "form_entry ex_contact_form ''contactEmail'' = Inr (lit ''a@b.co'')"
  "form_entry ex_contact_form ''contactMessage'' = Inr (lit ''Hi'')"
  by (simp_all add: form_entry_def formData_get_def ex_contact_form_def lit_def
      is_lead_surrogate_def is_trail_surrogate_def)

lemma ex_subject:
  "encodeURIComponent (mailto_subject (lit ''Ann'')) =
     Inr (lit ''Portfolio%20Contact%20from%20Ann'')"
  by (simp add: enc_defs mailto_subject_def)

lemma ex_body:
  "encodeURIComponent (mailto_body (lit ''Ann'') (lit ''a@b.co'') (lit ''Hi'')) =
     Inr (lit ''Name%3A%20Ann%0AEmail%3A%20a%40b.co%0A%0AMessage%3A%0AHi'')"
  by (simp add: enc_defs mailto_body_def)

lemma ex_link_eq:
  "mailto_link (lit ''Portfolio%20Contact%20from%20Ann'')
     (lit ''Name%3A%20Ann%0AEmail%3A%20a%40b.co%0A%0AMessage%3A%0AHi'') = ex_link"
  by (simp add: mailto_link_def ex_link_def lit_def)

lemma ex_on_submit:
  "on_submit ex_page =
     Inr \<lparr>contactForm = map (\<lambda>f. f\<lparr>fvalue := [], classList := [''form-control'']\<rparr>) ex_contact_form,
          toasts = 1, timers = [(1000, ex_link)], location_href = [],
          trace = [ShowToast, SetTimeout 1000, FormReset, ClearDecorations]\<rparr>"
proof -
  define fs where "fs = map (\<lambda>f. f\<lparr>classList := [''form-control'', ''is-valid'']\<rparr>) ex_contact_form"
  have v: "validateForm (contactForm ex_page) = (True, fs)"
    using ex_contact_form_valid by (simp add: ex_page_def fs_def)
  have en: "form_entry fs k = form_entry ex_contact_form k" for k
    using form_entry_validateForm [of ex_contact_form k] ex_contact_form_valid
    by (simp add: fs_def)
  have h: "handleFormSubmission (ex_page\<lparr>contactForm := fs\<rparr>) =
     Inr (ex_page\<lparr>toasts := toasts ex_page + 1, timers := timers ex_page @ [(1000, ex_link)],
                   contactForm := map clear_decorations (map reset_field fs),
                   trace := trace ex_page @ [ShowToast, SetTimeout 1000, FormReset,
                                             ClearDecorations]\<rparr>)"
    by (simp add: handleFormSubmission_def en ex_entries ex_subject ex_body ex_link_eq)
  have r: "map clear_decorations (map reset_field fs) =
     map (\<lambda>f. f\<lparr>fvalue := [], classList := [''form-control'']\<rparr>) ex_contact_form"
    unfolding fs_def ex_contact_form_def
    by (simp add: clear_decorations_def reset_field_def classList_remove_def)
  have "on_submit ex_page = handleFormSubmission (ex_page\<lparr>contactForm := fs\<rparr>)"
    by (simp add: on_submit_def v)
  also note h
  finally show ?thesis unfolding r by (simp add: ex_page_def)
qed

lemma surrogate_disjoint: "is_lead_surrogate u \<Longrightarrow> \<not> is_trail_surrogate u"
  by (simp add: is_lead_surrogate_def is_trail_surrogate_def word_le_nat_alt)

lemma unescaped_no_surrogate:
  "uriUnescaped u \<Longrightarrow> \<not> is_lead_surrogate u \<and> \<not> is_trail_surrogate u"
  by (auto simp: uriUnescaped_def is_lead_surrogate_def is_trail_surrogate_def word_le_nat_alt)

lemma replacement_no_surrogate:
  "\<not> is_lead_surrogate 0xFFFD" "\<not> is_trail_surrogate 0xFFFD"
  by (simp_all add: is_lead_surrogate_def is_trail_surrogate_def)

lemma well_formed_to_scalar_values: "well_formed (to_scalar_values s)"
  by (induction s rule: to_scalar_values.induct)
    (auto simp: surrogate_disjoint replacement_no_surrogate split: list.splits)

lemma well_formed_append: "well_formed a \<Longrightarrow> well_formed b \<Longrightarrow> well_formed (a @ b)"
  by (induction a rule: well_formed.induct) (auto split: list.splits if_splits)

lemma well_formed_encodes: "well_formed s \<Longrightarrow> \<exists>r. encodeURIComponent s = Inr r"
proof (induction s rule: well_formed.induct)
  case 1
  then show ?case by simp
next
  case (2 u s)
  show ?case
  proof (cases "is_lead_surrogate u")
    case True
    with "2.prems" obtain v s' where s: "s = v # s'" and v: "is_trail_surrogate v"
      and w: "well_formed s'"
      by (cases s) auto
    from "2.IH"(1) [OF True s w] obtain r where "encodeURIComponent s' = Inr r" by blast
    with True s v show ?thesis
      using unescaped_no_surrogate [of u] surrogate_disjoint [of u] by auto
  next
    case False
    with "2.prems" have t: "\<not> is_trail_surrogate u" and w: "well_formed s" by simp_all
    from "2.IH"(2) [OF False w] obtain r where "encodeURIComponent s = Inr r" by blast
    with False t show ?thesis by auto
  qed
qed

lemma well_formed_literals:
  "well_formed (lit ''Portfolio Contact from '')" "well_formed (lit ''Name: '')"
  "well_formed (lit ''\<newline>Email: '')" "well_formed (lit ''\<newline>\<newline>Message:\<newline>'')"
  by (simp_all add: lit_def is_lead_surrogate_def is_trail_surrogate_def)

lemma formData_get_well_formed: "formData_get fs k = Some v \<Longrightarrow> well_formed v"
  by (auto simp: formData_get_def well_formed_to_scalar_values)

lemma ex_surrogate_form_valid:
  "validateForm ex_surrogate_form =
     (True, map (\<lambda>f. f\<lparr>classList := [''form-control'', ''is-valid'']\<rparr>) ex_surrogate_form)"
  by code_simp

lemma ex_unnamed_form_valid:
  "validateForm ex_unnamed_form =
     (True, map (\<lambda>f. f\<lparr>classList := [''form-control'', ''is-valid'']\<rparr>) ex_unnamed_form)"
  by code_simp

lemma ex_surrogate_entries:
  "formData_get ex_surrogate_form ''contactName'' = Some [0xFFFD]"
  "formData_get ex_surrogate_form ''contactEmail'' = Some (lit ''a@b.co'')"
  "formData_get ex_surrogate_form ''contactMessage'' = Some (lit ''Hi'')"
  by (simp_all add: formData_get_def ex_surrogate_form_def lit_def
      is_lead_surrogate_def is_trail_surrogate_def)

lemma ex_surrogate_subject:
  "encodeURIComponent (mailto_subject [0xFFFD]) =
     Inr (lit ''Portfolio%20Contact%20from%20%EF%BF%BD'')"
  by (simp add: enc_defs mailto_subject_def)

lemma ex_surrogate_body:
  "encodeURIComponent (mailto_body [0xFFFD] (lit ''a@b.co'') (lit ''Hi'')) =
     Inr (lit ''Name%3A%20%EF%BF%BD%0AEmail%3A%20a%40b.co%0A%0AMessage%3A%0AHi'')"
  by (simp add: enc_defs mailto_body_def)

lemma ex_surrogate_link_eq:
  "mailto_link (lit ''Portfolio%20Contact%20from%20%EF%BF%BD'')
     (lit ''Name%3A%20%EF%BF%BD%0AEmail%3A%20a%40b.co%0A%0AMessage%3A%0AHi'') = ex_surrogate_link"
  by (simp add: mailto_link_def ex_surrogate_link_def lit_def)

lemma ex_unnamed_entry: "form_entry ex_unnamed_form ''contactName'' = Inr [0xD800]"
  by (simp add: form_entry_def formData_get_def element_value_def ex_unnamed_form_def)

lemma ex_unnamed_entries:
  "form_entry ex_unnamed_form ''contactEmail'' = Inr (lit ''a@b.co'')"
  "form_entry ex_unnamed_form ''contactMessage'' = Inr (lit ''Hi'')"
  by (simp_all add: form_entry_def formData_get_def ex_unnamed_form_def lit_def
      is_lead_surrogate_def is_trail_surrogate_def)

lemma ex_unnamed_subject: "encodeURIComponent (mailto_subject [0xD800]) = Inl URIError"
  by (simp add: enc_defs mailto_subject_def)

lemma ex_on_submit_unnamed: "on_submit ex_unnamed_page = Inl URIError"
proof -
  define fs where "fs = map (\<lambda>f. f\<lparr>classList := [''form-control'', ''is-valid'']\<rparr>) ex_unnamed_form"
  have v: "validateForm (contactForm ex_unnamed_page) = (True, fs)"
    using ex_unnamed_form_valid by (simp add: ex_unnamed_page_def fs_def)
  have en: "form_entry fs k = form_entry ex_unnamed_form k" for k
    using form_entry_validateForm [of ex_unnamed_form k] ex_unnamed_form_valid
    by (simp add: fs_def)
  have "on_submit ex_unnamed_page = handleFormSubmission (ex_unnamed_page\<lparr>contactForm := fs\<rparr>)"
    by (simp add: on_submit_def v)
  also have "\<dots> = Inl URIError"
    by (simp add: handleFormSubmission_def en ex_unnamed_entry ex_unnamed_entries
        ex_unnamed_subject)
  finally show ?thesis .
qed

text \<open>
  Claim C8 as stated fails in two ways. On the sample form, when the submit handler
  returns the controls are already reset and their validation classes removed, while
  the location is still the old one; the navigation is the last effect, one second
  later. And a submission that passes validation need not get that far: when the name
  is read through \<open>getElementById\<close> (the control has the id but no name) and holds a
  surrogate without partner, \<open>encodeURIComponent\<close> throws a URIError and the handler
  ends before the toast, the timer and the reset.
\<close>

theorem submission_resets_before_navigation:
  "map_sum id page_view (on_submit ex_page) =
     Inr ([], [[], [], []],
          [[''form-control''], [''form-control''], [''form-control'']],
          [ShowToast, SetTimeout 1000, FormReset, ClearDecorations])
   \<and> map_sum id (\<lambda>p. page_view (elapse 1000 p)) (on_submit ex_page) =
     Inr (ex_link, [[], [], []],
          [[''form-control''], [''form-control''], [''form-control'']],
          [ShowToast, SetTimeout 1000, FormReset, ClearDecorations, Navigate ex_link])
   \<and> fst (validateForm (contactForm ex_unnamed_page)) = True
   \<and> on_submit ex_unnamed_page = Inl URIError"
  unfolding ex_on_submit ex_on_submit_unnamed
  using ex_unnamed_form_valid
  by (simp add: page_view_def elapse_def timer_step_def ex_contact_form_def ex_unnamed_page_def)

text \<open>
  Claim C8, amended. On a submission that passes validation and whose handler throws
  no exception (the three entries are read and both encodings succeed), the handler
  builds the mailto link from the encoded subject "Portfolio Contact from name" and
  the encoded body holding name, email and message, shows the toast, sets a timer of
  1000 ms for the navigation, and resets the form and removes the validation classes
  at once, before it returns: the location is unchanged then. With no other timer
  pending, the location is still unchanged after 999 ms, and after 1000 ms it is the
  mailto link, the navigation being the last effect. The handler throws no exception
  whenever the three controls are named and hold non-empty values: the entries are
  then the \<open>FormData\<close> entries, and both encodings succeed on them, whatever code units
  the values hold.
\<close>

theorem submission_effects:
  "(fst (validateForm (contactForm pg)) \<and>
    form_entry (contactForm pg) ''contactName'' = Inr name \<and>
    form_entry (contactForm pg) ''contactEmail'' = Inr email \<and>
    form_entry (contactForm pg) ''contactMessage'' = Inr message \<and>
    encodeURIComponent (mailto_subject name) = Inr subject \<and>
    encodeURIComponent (mailto_body name email message) = Inr body \<longrightarrow>
    (\<exists>pg'. on_submit pg = Inr pg'
     \<and> toasts pg' = toasts pg + 1
     \<and> timers pg' = timers pg @ [(1000, mailto_link subject body)]
     \<and> location_href pg' = location_href pg
     \<and> map fvalue (contactForm pg') = map defaultValue (contactForm pg)
     \<and> list_all (\<lambda>f. ''is-valid'' \<notin> set (classList f) \<and> ''is-invalid'' \<notin> set (classList f))
          (contactForm pg')
     \<and> trace pg' = trace pg @ [ShowToast, SetTimeout 1000, FormReset, ClearDecorations]
     \<and> (timers pg = [] \<longrightarrow>
          location_href (elapse 999 pg') = location_href pg \<and>
          location_href (elapse 1000 pg') = mailto_link subject body \<and>
          trace (elapse 1000 pg') =
            trace pg @ [ShowToast, SetTimeout 1000, FormReset, ClearDecorations,
                        Navigate (mailto_link subject body)])))
   \<and> (formData_get (contactForm pg) ''contactName'' = Some name \<and> name \<noteq> [] \<and>
       formData_get (contactForm pg) ''contactEmail'' = Some email \<and> email \<noteq> [] \<and>
       formData_get (contactForm pg) ''contactMessage'' = Some message \<and> message \<noteq> [] \<longrightarrow>
       form_entry (contactForm pg) ''contactName'' = Inr name \<and>
       form_entry (contactForm pg) ''contactEmail'' = Inr email \<and>
       form_entry (contactForm pg) ''contactMessage'' = Inr message \<and>
       (\<exists>subject' body'. encodeURIComponent (mailto_subject name) = Inr subject' \<and>
          encodeURIComponent (mailto_body name email message) = Inr body'))"
proof (intro conjI impI)
  assume h: "fst (validateForm (contactForm pg)) \<and>
    form_entry (contactForm pg) ''contactName'' = Inr name \<and>
    form_entry (contactForm pg) ''contactEmail'' = Inr email \<and>
    form_entry (contactForm pg) ''contactMessage'' = Inr message \<and>
    encodeURIComponent (mailto_subject name) = Inr subject \<and>
    encodeURIComponent (mailto_body name email message) = Inr body"
  then have valid: "fst (validateForm (contactForm pg))"
    and n: "form_entry (contactForm pg) ''contactName'' = Inr name"
    and e: "form_entry (contactForm pg) ''contactEmail'' = Inr email"
    and m: "form_entry (contactForm pg) ''contactMessage'' = Inr message"
    and s: "encodeURIComponent (mailto_subject name) = Inr subject"
    and b: "encodeURIComponent (mailto_body name email message) = Inr body"
    by simp_all
  define fs where "fs = snd (validateForm (contactForm pg))"
  define pg' where "pg' = pg\<lparr>toasts := toasts pg + 1,
      timers := timers pg @ [(1000, mailto_link subject body)],
      contactForm := map clear_decorations (map reset_field fs),
      trace := trace pg @ [ShowToast, SetTimeout 1000, FormReset, ClearDecorations]\<rparr>"
  from valid have v: "validateForm (contactForm pg) = (True, fs)"
    by (simp add: fs_def prod_eq_iff)
  have en: "form_entry fs k = form_entry (contactForm pg) k" for k
    unfolding fs_def by (rule form_entry_validateForm)
  have sub: "on_submit pg = Inr pg'"
    unfolding on_submit_def v
    by (simp add: handleFormSubmission_def en n e m s b pg'_def)
  have vals: "map fvalue (contactForm pg') = map defaultValue (contactForm pg)"
    using defaultValue_validateForm [of "contactForm pg"]
    by (simp add: pg'_def fs_def comp_def fvalue_clear_reset)
  have cls: "list_all (\<lambda>f. ''is-valid'' \<notin> set (classList f) \<and> ''is-invalid'' \<notin> set (classList f))
          (contactForm pg')"
    by (simp add: pg'_def list_all_iff clear_decorations_classes)
  have tm: "location_href (elapse 999 pg') = location_href pg \<and>
          location_href (elapse 1000 pg') = mailto_link subject body \<and>
          trace (elapse 1000 pg') =
            trace pg @ [ShowToast, SetTimeout 1000, FormReset, ClearDecorations,
                        Navigate (mailto_link subject body)]" if "timers pg = []"
    using that by (simp add: pg'_def elapse_def timer_step_def)
  from sub vals cls tm
  show "\<exists>pg'. on_submit pg = Inr pg'
     \<and> toasts pg' = toasts pg + 1
     \<and> timers pg' = timers pg @ [(1000, mailto_link subject body)]
     \<and> location_href pg' = location_href pg
     \<and> map fvalue (contactForm pg') = map defaultValue (contactForm pg)
     \<and> list_all (\<lambda>f. ''is-valid'' \<notin> set (classList f) \<and> ''is-invalid'' \<notin> set (classList f))
          (contactForm pg')
     \<and> trace pg' = trace pg @ [ShowToast, SetTimeout 1000, FormReset, ClearDecorations]
     \<and> (timers pg = [] \<longrightarrow>
          location_href (elapse 999 pg') = location_href pg \<and>
          location_href (elapse 1000 pg') = mailto_link subject body \<and>
          trace (elapse 1000 pg') =
            trace pg @ [ShowToast, SetTimeout 1000, FormReset, ClearDecorations,
                        Navigate (mailto_link subject body)])"
    by (auto simp: pg'_def)
next
  assume h: "formData_get (contactForm pg) ''contactName'' = Some name \<and> name \<noteq> [] \<and>
       formData_get (contactForm pg) ''contactEmail'' = Some email \<and> email \<noteq> [] \<and>
       formData_get (contactForm pg) ''contactMessage'' = Some message \<and> message \<noteq> []"
  then have wn: "well_formed name" and we: "well_formed email" and wm: "well_formed message"
    by (auto dest: formData_get_well_formed)
  from h have en: "form_entry (contactForm pg) ''contactName'' = Inr name \<and>
       form_entry (contactForm pg) ''contactEmail'' = Inr email \<and>
       form_entry (contactForm pg) ''contactMessage'' = Inr message"
    by (simp add: form_entry_def)
  have "well_formed (mailto_subject name)"
    unfolding mailto_subject_def by (intro well_formed_append well_formed_literals wn)
  then obtain s' where s': "encodeURIComponent (mailto_subject name) = Inr s'"
    using well_formed_encodes by blast
  have "well_formed (mailto_body name email message)"
    unfolding mailto_body_def by (intro well_formed_append well_formed_literals wn we wm)
  then obtain b' where b': "encodeURIComponent (mailto_body name email message) = Inr b'"
    using well_formed_encodes by blast
  from en s' b'
  show "form_entry (contactForm pg) ''contactName'' = Inr name" 
    "form_entry (contactForm pg) ''contactEmail'' = Inr email"
    "form_entry (contactForm pg) ''contactMessage'' = Inr message"
    "\<exists>subject' body'. encodeURIComponent (mailto_subject name) = Inr subject' \<and>
          encodeURIComponent (mailto_body name email message) = Inr body'"
    by auto
qed

text \<open>
  C8 at the sample form (Ann, a@b.co, Hi): the link, the state when the handler
  returns, and the location one second later. And at the form whose named name
  control holds a surrogate without partner: the entry is U+FFFD, the encodings
  succeed, and the submission is carried out with the escaped U+FFFD in the link.
\<close>

theorem submission_effects_witness:
  "fst (validateForm (contactForm ex_page))
   \<and> form_entry (contactForm ex_page) ''contactName'' = Inr (lit ''Ann'')
   \<and> form_entry (contactForm ex_page) ''contactEmail'' = Inr (lit ''a@b.co'')
   \<and> form_entry (contactForm ex_page) ''contactMessage'' = Inr (lit ''Hi'')
   \<and> encodeURIComponent (mailto_subject (lit ''Ann'')) =
        Inr (lit ''Portfolio%20Contact%20from%20Ann'')
   \<and> encodeURIComponent (mailto_body (lit ''Ann'') (lit ''a@b.co'') (lit ''Hi'')) =
        Inr (lit ''Name%3A%20Ann%0AEmail%3A%20a%40b.co%0A%0AMessage%3A%0AHi'')
   \<and> (\<exists>pg'. on_submit ex_page = Inr pg' \<and> toasts pg' = 1 \<and> timers pg' = [(1000, ex_link)]
         \<and> location_href pg' = [] \<and> map fvalue (contactForm pg') = [[], [], []]
         \<and> location_href (elapse 999 pg') = []
         \<and> location_href (elapse 1000 pg') = ex_link)
   \<and> fst (validateForm (contactForm ex_surrogate_page))
   \<and> formData_get (contactForm ex_surrogate_page) ''contactName'' = Some [0xFFFD]
   \<and> formData_get (contactForm ex_surrogate_page) ''contactEmail'' = Some (lit ''a@b.co'')
   \<and> formData_get (contactForm ex_surrogate_page) ''contactMessage'' = Some (lit ''Hi'')
   \<and> form_entry (contactForm ex_surrogate_page) ''contactName'' = Inr [0xFFFD]
   \<and> (\<exists>pg'. on_submit ex_surrogate_page = Inr pg' \<and> toasts pg' = 1
         \<and> timers pg' = [(1000, ex_surrogate_link)]
         \<and> location_href pg' = [] \<and> map fvalue (contactForm pg') = [[], [], []]
         \<and> location_href (elapse 1000 pg') = ex_surrogate_link)"
proof -
  have v: "fst (validateForm (contactForm ex_page))"
    using ex_contact_form_valid by (simp add: ex_page_def)
  have f: "contactForm ex_page = ex_contact_form" by (simp add: ex_page_def)
  have t: "timers ex_page = [] \<and> toasts ex_page = 0 \<and> location_href ex_page = []"
    by (simp add: ex_page_def)
  have d: "map defaultValue (contactForm ex_page) = [[], [], []]"
    by (simp add: ex_page_def ex_contact_form_def)
  have h: "fst (validateForm (contactForm ex_page)) \<and>
    form_entry (contactForm ex_page) ''contactName'' = Inr (lit ''Ann'') \<and>
    form_entry (contactForm ex_page) ''contactEmail'' = Inr (lit ''a@b.co'') \<and>
    form_entry (contactForm ex_page) ''contactMessage'' = Inr (lit ''Hi'') \<and>
    encodeURIComponent (mailto_subject (lit ''Ann'')) =
      Inr (lit ''Portfolio%20Contact%20from%20Ann'') \<and>
    encodeURIComponent (mailto_body (lit ''Ann'') (lit ''a@b.co'') (lit ''Hi'')) =
      Inr (lit ''Name%3A%20Ann%0AEmail%3A%20a%40b.co%0A%0AMessage%3A%0AHi'')"
    using v ex_entries ex_subject ex_body by (simp add: f)
  from submission_effects [THEN conjunct1, rule_format, OF h]
  obtain pg' where "on_submit ex_page = Inr pg'" "toasts pg' = toasts ex_page + 1"
    "timers pg' = timers ex_page @ [(1000, ex_link)]" "location_href pg' = location_href ex_page"
    "map fvalue (contactForm pg') = map defaultValue (contactForm ex_page)"
    "location_href (elapse 999 pg') = location_href ex_page"
    "location_href (elapse 1000 pg') = ex_link"
    using t by (auto simp: ex_link_eq)
  with t d have a: "\<exists>pg'. on_submit ex_page = Inr pg' \<and> toasts pg' = 1 \<and> timers pg' = [(1000, ex_link)]
         \<and> location_href pg' = [] \<and> map fvalue (contactForm pg') = [[], [], []]
         \<and> location_href (elapse 999 pg') = []
         \<and> location_href (elapse 1000 pg') = ex_link"
    by auto
  have sv: "fst (validateForm (contactForm ex_surrogate_page))"
    using ex_surrogate_form_valid by (simp add: ex_surrogate_page_def)
  have sf: "contactForm ex_surrogate_page = ex_surrogate_form"
    by (simp add: ex_surrogate_page_def)
  have st: "timers ex_surrogate_page = [] \<and> toasts ex_surrogate_page = 0 \<and>
      location_href ex_surrogate_page = []"
    by (simp add: ex_surrogate_page_def)
  have sd: "map defaultValue (contactForm ex_surrogate_page) = [[], [], []]"
    by (simp add: ex_surrogate_page_def ex_surrogate_form_def)
  have sh: "formData_get (contactForm ex_surrogate_page) ''contactName'' = Some [0xFFFD] \<and>
      [0xFFFD] \<noteq> ([] :: jsstring) \<and>
      formData_get (contactForm ex_surrogate_page) ''contactEmail'' = Some (lit ''a@b.co'') \<and>
      lit ''a@b.co'' \<noteq> [] \<and>
      formData_get (contactForm ex_surrogate_page) ''contactMessage'' = Some (lit ''Hi'') \<and>
      lit ''Hi'' \<noteq> []"
    using ex_surrogate_entries by (simp add: sf lit_def)
  from submission_effects [THEN conjunct2, rule_format, OF sh]
  have se: "form_entry (contactForm ex_surrogate_page) ''contactName'' = Inr [0xFFFD]"
    "form_entry (contactForm ex_surrogate_page) ''contactEmail'' = Inr (lit ''a@b.co'')"
    "form_entry (contactForm ex_surrogate_page) ''contactMessage'' = Inr (lit ''Hi'')"
    by simp_all
  have sh2: "fst (validateForm (contactForm ex_surrogate_page)) \<and>
    form_entry (contactForm ex_surrogate_page) ''contactName'' = Inr [0xFFFD] \<and>
    form_entry (contactForm ex_surrogate_page) ''contactEmail'' = Inr (lit ''a@b.co'') \<and>
    form_entry (contactForm ex_surrogate_page) ''contactMessage'' = Inr (lit ''Hi'') \<and>
    encodeURIComponent (mailto_subject [0xFFFD]) =
      Inr (lit ''Portfolio%20Contact%20from%20%EF%BF%BD'') \<and>
    encodeURIComponent (mailto_body [0xFFFD] (lit ''a@b.co'') (lit ''Hi'')) =
      Inr (lit ''Name%3A%20%EF%BF%BD%0AEmail%3A%20a%40b.co%0A%0AMessage%3A%0AHi'')"
    using sv se ex_surrogate_subject ex_surrogate_body by simp
  from submission_effects [THEN conjunct1, rule_format, OF sh2]
  obtain pg' where "on_submit ex_surrogate_page = Inr pg'"
    "toasts pg' = toasts ex_surrogate_page + 1"
    "timers pg' = timers ex_surrogate_page @ [(1000, ex_surrogate_link)]"
    "location_href pg' = location_href ex_surrogate_page"
    "map fvalue (contactForm pg') = map defaultValue (contactForm ex_surrogate_page)"
    "location_href (elapse 1000 pg') = ex_surrogate_link"
    using st by (auto simp: ex_surrogate_link_eq)
  with st sd have b: "\<exists>pg'. on_submit ex_surrogate_page = Inr pg' \<and> toasts pg' = 1
         \<and> timers pg' = [(1000, ex_surrogate_link)]
         \<and> location_href pg' = [] \<and> map fvalue (contactForm pg') = [[], [], []]
         \<and> location_href (elapse 1000 pg') = ex_surrogate_link"
    by auto
  from h a sv sh se(1) b show ?thesis by simp
qed

section \<open>Properties of the particle scene\<close>

lemma app_start_wide:
  "app_start 1024 768 True True =
     \<lparr>isWebGLEnabled = True, webglScene = True, portfolioApp_global = False,
      webglSupported = True, canvasPresent = True, canvasDisplay = '''',
      innerWidth = 1024, innerHeight = 768, cameraAspect = Some (1024, 768),
      projectionAspect = Some (1024, 768), rendererSize = Some (1024, 768),
      resizeListener = True, animateQueued = 0, framesRendered = 0, rotationSteps = 0,
      documentHidden = False\<rparr>"
  by (simp add: app_start_def setupWebGL_def initWebGL_def animate_def new_scene_def Let_def)

lemma animate_idle: "animateQueued st = 0 \<Longrightarrow> on_animation_frame st = st"
  by (simp add: on_animation_frame_def)

lemma scene_step_idle:
  "animateQueued st = 0 \<Longrightarrow>
     animateQueued (scene_step st e) = 0 \<and> framesRendered (scene_step st e) = framesRendered st"
  by (cases e) (simp_all add: on_resize_def on_visibilitychange_def animate_idle Let_def)

lemma scene_run_idle:
  "animateQueued st = 0 \<Longrightarrow>
     animateQueued (scene_run evs st) = 0 \<and> framesRendered (scene_run evs st) = framesRendered st"
  unfolding scene_run_def
proof (induction evs arbitrary: st)
  case Nil
  then show ?case by simp
next
  case (Cons e evs)
  from Cons.prems have s: "animateQueued (scene_step st e) = 0"
    "framesRendered (scene_step st e) = framesRendered st"
    by (simp_all add: scene_step_idle)
  from Cons.IH [OF s(1)] s(2) show ?case by simp
qed

lemma app_start_idle:
  "animateQueued (app_start w h supported canvas) = 0 \<and>
   framesRendered (app_start w h supported canvas) = 0"
  by (simp add: app_start_def setupWebGL_def initWebGL_def animate_def new_scene_def Let_def)

text \<open>
  Claim C6 at the failing input: the app started in a wide window with WebGL
  available, then the tab is hidden. \<open>window.portfolioApp\<close> is not set, the listener
  does nothing and the flag stays on. Were \<open>window.portfolioApp\<close> set, hiding the tab
  would turn the flag off, and showing it again would leave it off, with no
  \<open>animate\<close> callback queued.
\<close>

theorem visibilitychange_does_not_suspend_or_resume:
  "portfolioApp_global (app_start 1024 768 True True) = False
   \<and> isWebGLEnabled (app_start 1024 768 True True) = True
   \<and> scene_run [VisibilityChange True] (app_start 1024 768 True True) =
       (app_start 1024 768 True True)\<lparr>documentHidden := True\<rparr>
   \<and> isWebGLEnabled (scene_run [VisibilityChange True] (app_start 1024 768 True True)) = True
   \<and> isWebGLEnabled (scene_run [VisibilityChange True] ex_running_scene) = False
   \<and> isWebGLEnabled
       (scene_run [VisibilityChange True, VisibilityChange False] ex_running_scene) = False
   \<and> isWebGLEnabled
       (scene_run [VisibilityChange True, AnimationFrame, VisibilityChange False]
          ex_running_scene) = False
   \<and> animateQueued
       (scene_run [VisibilityChange True, AnimationFrame, VisibilityChange False]
          ex_running_scene) = 0"
  unfolding app_start_wide
  by (simp add: scene_run_def on_visibilitychange_def on_animation_frame_def animate_def
      ex_running_scene_def Let_def)

text \<open>
  Claim C7 at the failing input: the app started in a window 1024 wide, resized to
  500 and, a frame later, back to 1024. The first resize turns the flag off and hides
  the canvas; the second turns the flag on, shows the canvas and recomputes camera,
  projection and renderer for the new size; but no \<open>animate\<close> callback is queued
  after it, and no frame is rendered, then or after any further events. The same
  holds from a scene whose loop was running: after the three events no callback is
  queued and the later frames render nothing. After start-up the loop is in fact
  never running: \<open>initWebGL\<close> calls \<open>animate\<close> before \<open>setupWebGL\<close> sets the flag.
\<close>

theorem resize_back_does_not_resume_loop:
  "isWebGLEnabled (scene_run [Resize 500 768] (app_start 1024 768 True True)) = False
   \<and> canvasDisplay (scene_run [Resize 500 768] (app_start 1024 768 True True)) = ''none''
   \<and> isWebGLEnabled (scene_run [Resize 500 768, AnimationFrame, Resize 1024 700]
        (app_start 1024 768 True True)) = True
   \<and> canvasDisplay (scene_run [Resize 500 768, AnimationFrame, Resize 1024 700]
        (app_start 1024 768 True True)) = ''block''
   \<and> projectionAspect (scene_run [Resize 500 768, AnimationFrame, Resize 1024 700]
        (app_start 1024 768 True True)) = Some (1024, 700)
   \<and> animateQueued (scene_run ([Resize 500 768, AnimationFrame, Resize 1024 700] @ evs)
        (app_start 1024 768 True True)) = 0
   \<and> framesRendered (scene_run ([Resize 500 768, AnimationFrame, Resize 1024 700] @ evs)
        (app_start 1024 768 True True)) = 0
   \<and> animateQueued (scene_run evs (app_start w h supported canvas)) = 0
   \<and> framesRendered (scene_run evs (app_start w h supported canvas)) = 0
   \<and> isWebGLEnabled (scene_run [Resize 500 768, AnimationFrame, Resize 1024 700]
        ex_running_scene) = True
   \<and> animateQueued (scene_run [Resize 500 768, AnimationFrame, Resize 1024 700]
        ex_running_scene) = 0
   \<and> framesRendered (scene_run ([Resize 500 768, AnimationFrame, Resize 1024 700] @ evs)
        ex_running_scene) = framesRendered ex_running_scene"
proof -
  let ?s = "app_start 1024 768 True True"
  let ?evs = "[Resize 500 768, AnimationFrame, Resize 1024 700]"
  have a: "isWebGLEnabled (scene_run [Resize 500 768] ?s) = False
      \<and> canvasDisplay (scene_run [Resize 500 768] ?s) = ''none''"
    unfolding app_start_wide by (simp add: scene_run_def on_resize_def Let_def)
  have b: "isWebGLEnabled (scene_run ?evs ?s) = True
      \<and> canvasDisplay (scene_run ?evs ?s) = ''block''
      \<and> projectionAspect (scene_run ?evs ?s) = Some (1024, 700)"
    unfolding app_start_wide
    by (simp add: scene_run_def on_resize_def on_animation_frame_def Let_def)
  have c: "animateQueued (scene_run es (app_start w' h' s' c')) = 0
      \<and> framesRendered (scene_run es (app_start w' h' s' c')) = 0" for es w' h' s' c'
    using scene_run_idle [of "app_start w' h' s' c'" es] app_start_idle [of w' h' s' c']
    by simp
  have d: "isWebGLEnabled (scene_run ?evs ex_running_scene) = True
      \<and> animateQueued (scene_run ?evs ex_running_scene) = 0
      \<and> framesRendered (scene_run ?evs ex_running_scene) = framesRendered ex_running_scene"
    by (simp add: scene_run_def on_resize_def on_animation_frame_def animate_def
        ex_running_scene_def Let_def)
  have "scene_run (?evs @ evs) ex_running_scene = scene_run evs (scene_run ?evs ex_running_scene)"
    by (simp add: scene_run_def)
  with d scene_run_idle [of "scene_run ?evs ex_running_scene" evs]
  have e: "framesRendered (scene_run (?evs @ evs) ex_running_scene)
      = framesRendered ex_running_scene"
    by simp
  from a b c [of "?evs @ evs" 1024 768 True True] c [of evs w h supported canvas] d e
  show ?thesis by simp
qed

end
